theory Spec2Isabelle
  imports Main
begin

section \<open>Python values used by the two modules\<close>

text \<open>
  Strings are Python \<open>str\<close> values whose code points are below 256, one \<open>char\<close> per code
  point. Integers are Python's unbounded \<open>int\<close>. Exceptions are values of the datatype
  \<open>exn\<close>; every constructor stands for a class derived from \<open>Exception\<close>, which is what the
  two \<open>except Exception\<close> handlers of the program catch. A computation that may raise
  returns \<open>exn + 'a\<close>, with \<open>Inl\<close> for the raised exception.
\<close>

datatype exn =
    KeyError string
  | NoSectionError string
  | ValueError string
  | OverflowError string
  | InterpolationSyntaxError string string string
  | InterpolationMissingOptionError string string string string
  | InterpolationDepthError string string string
  | OSError string
  | Exception string

definition code :: "char \<Rightarrow> nat" where
  "code c = of_char c"

definition lower_char :: "char \<Rightarrow> char" where
  "lower_char c =
     (if (65 \<le> code c \<and> code c \<le> 90) \<or> (192 \<le> code c \<and> code c \<le> 222 \<and> code c \<noteq> 215)
      then char_of (code c + 32) else c)"

text \<open>\<open>str.lower()\<close>\<close>

definition lower :: "string \<Rightarrow> string" where
  "lower s = map lower_char s"

definition hex_digit :: "nat \<Rightarrow> char" where
  "hex_digit n = (if n < 10 then char_of (48 + n) else char_of (87 + n))"

definition printable :: "char \<Rightarrow> bool" where
  "printable c = ((32 \<le> code c \<and> code c \<le> 126) \<or> (161 \<le> code c \<and> code c \<noteq> 173))"

definition repr_char :: "char \<Rightarrow> char \<Rightarrow> string" where
  "repr_char q c =
     (if c = q \<or> c = CHR 0x5C then [CHR 0x5C, c]
      else if c = CHR 0x09 then [CHR 0x5C, CHR ''t'']
      else if c = CHR 0x0A then [CHR 0x5C, CHR ''n'']
      else if c = CHR 0x0D then [CHR 0x5C, CHR ''r'']
      else if printable c then [c]
      else [CHR 0x5C, CHR ''x'', hex_digit (code c div 16), hex_digit (code c mod 16)])"

text \<open>\<open>repr(s)\<close> of a string, as the \<open>%r\<close> conversions of the library messages use it.\<close>

definition repr :: "string \<Rightarrow> string" where
  "repr s =
     (let q = (if CHR 0x27 \<in> set s \<and> CHR 0x22 \<notin> set s then CHR 0x22 else CHR 0x27)
      in q # concat (map (repr_char q) s) @ [q])"

function str_nat :: "nat \<Rightarrow> string" where
  "str_nat n = (if n < 10 then [char_of (48 + n)] else str_nat (n div 10) @ [char_of (48 + n mod 10)])"
  by pat_completeness auto
termination
  by (relation "measure (\<lambda>n. n)") auto

declare str_nat.simps [simp del]

text \<open>\<open>str(i)\<close> of an integer.\<close>

definition str_int :: "int \<Rightarrow> string" where
  "str_int i = (if i < 0 then CHR ''-'' # str_nat (nat (- i)) else str_nat (nat i))"

text \<open>\<open>str(b).lower()\<close> of a boolean: \<open>str(True)\<close> is \<open>'True'\<close>.\<close>

definition str_bool :: "bool \<Rightarrow> string" where
  "str_bool b = (if b then ''True'' else ''False'')"

definition is_space :: "char \<Rightarrow> bool" where
  "is_space c = ((9 \<le> code c \<and> code c \<le> 13) \<or> code c = 32 \<or> code c = 133 \<or> code c = 160)"

definition is_digit :: "char \<Rightarrow> bool" where
  "is_digit c = (48 \<le> code c \<and> code c \<le> 57)"

definition digit_val :: "char \<Rightarrow> nat" where
  "digit_val c = code c - 48"

definition strip :: "string \<Rightarrow> string" where
  "strip s = rev (dropWhile is_space (rev (dropWhile is_space s)))"

text \<open>
  The part of a string that \<open>int\<close> scans as a decimal literal: digits and underscores. Two
  underscores in a row and an underscore at either end are not allowed.
\<close>

definition literal_part :: "string \<Rightarrow> string" where
  "literal_part s = takeWhile (\<lambda>c. is_digit c \<or> c = CHR ''_'') s"

fun double_underscore :: "string \<Rightarrow> bool" where
  "double_underscore (a # b # r) = ((a = CHR ''_'' \<and> b = CHR ''_'') \<or> double_underscore (b # r))"
| "double_underscore r = False"

definition digits_value :: "string \<Rightarrow> nat" where
  "digits_value ds = foldl (\<lambda>a c. a * 10 + digit_val c) 0 ds"

text \<open>
  \<open>int(s)\<close>: surrounding white space is dropped, then an optional sign and a decimal
  literal are read. A literal of more than 4300 digits is refused (the interpreter's
  default limit), and that before what follows the literal is looked at. The message for
  an invalid literal shows the first 200 characters of the argument's \<open>repr\<close>.
\<close>

definition py_int :: "string \<Rightarrow> exn + int" where
  "py_int s =
     (let t = strip s;
          neg = (case t of c # _ \<Rightarrow> c = CHR ''-'' | [] \<Rightarrow> False);
          body = (case t of c # r \<Rightarrow> if c = CHR ''-'' \<or> c = CHR ''+'' then r else t | [] \<Rightarrow> t);
          lit = literal_part body;
          ds = filter is_digit lit;
          invalid = Inl (ValueError (''invalid literal for int() with base 10: ''
                                     @ take 200 (repr s)))
      in if take 1 body = ''_'' \<or> double_underscore lit \<or> (lit \<noteq> [] \<and> last lit = CHR ''_'')
         then invalid
         else if 4300 < length ds
         then Inl (ValueError
                (''Exceeds the limit (4300 digits) for integer string conversion: value has ''
                 @ str_nat (length ds)
                 @ '' digits; use sys.set_int_max_str_digits() to increase the limit''))
         else if lit = [] \<or> length lit < length body then invalid
         else Inr (if neg then - int (digits_value ds) else int (digits_value ds)))"

text \<open>\<open>distutils.util.strtobool\<close>, followed by the \<open>bool(...)\<close> every call site applies.\<close>

definition strtobool :: "string \<Rightarrow> exn + bool" where
  "strtobool val =
     (let v = lower val in
      if v \<in> set [''y'', ''yes'', ''t'', ''true'', ''on'', ''1''] then Inr True
      else if v \<in> set [''n'', ''no'', ''f'', ''false'', ''off'', ''0''] then Inr False
      else Inl (ValueError (''invalid truth value '' @ repr v)))"

text \<open>\<open>str(e)\<close> of an exception.\<close>

definition MAX_INTERPOLATION_DEPTH :: nat where
  "MAX_INTERPOLATION_DEPTH = 10"

fun str_exn :: "exn \<Rightarrow> string" where
  "str_exn (KeyError k) = repr k"
| "str_exn (NoSectionError s) = ''No section: '' @ repr s"
| "str_exn (ValueError m) = m"
| "str_exn (OverflowError m) = m"
| "str_exn (InterpolationSyntaxError opt sec m) = m"
| "str_exn (InterpolationMissingOptionError opt sec raw ref) =
     ''Bad value substitution: option '' @ repr opt @ '' in section '' @ repr sec
     @ '' contains an interpolation key '' @ repr ref
     @ '' which is not a valid option name. Raw value: '' @ repr raw"
| "str_exn (InterpolationDepthError opt sec raw) =
     ''Recursion limit exceeded in value substitution: option '' @ repr opt
     @ '' in section '' @ repr sec
     @ '' contains an interpolation key which cannot be substituted in ''
     @ str_nat MAX_INTERPOLATION_DEPTH @ '' steps. Raw value: '' @ repr raw"
| "str_exn (OSError m) = m"
| "str_exn (Exception m) = m"


section \<open>The configuration object (configparser.ConfigParser)\<close>

text \<open>
  The parser object after \<open>config.read('config')\<close>: the entries of the \<open>DEFAULT\<close> section and
  the other sections by name, each a dictionary from option names to values. Option
  names pass through \<open>optionxform\<close>, which is \<open>str.lower\<close>. The parser is created with its
  default arguments, so values read with \<open>get\<close> go through \<open>BasicInterpolation\<close>.
\<close>

type_synonym sectdict = "string \<rightharpoonup> string"

record ConfigParser =
  defaults :: sectdict
  sections :: "string \<rightharpoonup> sectdict"

definition DEFAULTSECT :: string where
  "DEFAULTSECT = ''DEFAULT''"

definition bind_exn :: "exn + 'a \<Rightarrow> ('a \<Rightarrow> exn + 'b) \<Rightarrow> exn + 'b" where
  "bind_exn x f = (case x of Inl e \<Rightarrow> Inl e | Inr a \<Rightarrow> f a)"

text \<open>
  A match of the regular expression \<open>%\(([^)]+)\)s\<close> at the start of a string: the group
  and the text after the match.
\<close>

definition match_KEYCRE :: "string \<Rightarrow> (string \<times> string) option" where
  "match_KEYCRE s =
     (case s of
        a # b # r \<Rightarrow>
          (let key = takeWhile (\<lambda>x. x \<noteq> CHR 0x29) r;
               after = dropWhile (\<lambda>x. x \<noteq> CHR 0x29) r
           in if a = CHR 0x25 \<and> b = CHR 0x28 \<and> key \<noteq> [] \<and> take 2 after = [CHR 0x29, CHR ''s'']
              then Some (key, drop 2 after) else None)
      | _ \<Rightarrow> None)"

lemma match_KEYCRE_shorter: "match_KEYCRE s = Some (k, t) \<Longrightarrow> length t < length s"
proof -
  assume m: "match_KEYCRE s = Some (k, t)"
  then obtain a b r where s: "s = a # b # r"
    by (cases s rule: list.exhaust; cases "tl s"; auto simp: match_KEYCRE_def)
  from m s have "t = drop 2 (dropWhile (\<lambda>x. x \<noteq> CHR 0x29) r)"
    by (auto simp: match_KEYCRE_def Let_def split: if_splits)
  moreover have "length (dropWhile (\<lambda>x. x \<noteq> CHR 0x29) r) \<le> length r"
    by (rule length_dropWhile_le)
  ultimately show ?thesis using s by simp
qed

text \<open>
  \<open>BasicInterpolation._interpolate_some\<close>; the result is the text the call appends to the
  accumulator. \<open>m\<close> is the section's dictionary chained with the defaults.
\<close>

function interpolate_some ::
  "sectdict \<Rightarrow> string \<Rightarrow> string \<Rightarrow> string \<Rightarrow> nat \<Rightarrow> string \<Rightarrow> exn + string" where
  "interpolate_some m opt sec rawval depth rest =
     (if depth > MAX_INTERPOLATION_DEPTH then Inl (InterpolationDepthError opt sec rawval)
      else case rest of
        [] \<Rightarrow> Inr []
      | c # r \<Rightarrow>
          if c \<noteq> CHR 0x25 then
            (case interpolate_some m opt sec rawval depth r of
               Inl e \<Rightarrow> Inl e | Inr t \<Rightarrow> Inr (c # t))
          else if take 1 r = [CHR 0x25] then
            (case interpolate_some m opt sec rawval depth (drop 1 r) of
               Inl e \<Rightarrow> Inl e | Inr t \<Rightarrow> Inr (CHR 0x25 # t))
          else if take 1 r = [CHR 0x28] then
            (case match_KEYCRE rest of
               None \<Rightarrow> Inl (InterpolationSyntaxError opt sec
                         (''bad interpolation variable reference '' @ repr rest))
             | Some (key, rest') \<Rightarrow>
                 (case m (lower key) of
                    None \<Rightarrow> Inl (InterpolationMissingOptionError opt sec rawval (lower key))
                  | Some v \<Rightarrow>
                      (case (if CHR 0x25 \<in> set v
                             then interpolate_some m opt sec rawval (depth + 1) v
                             else Inr v) of
                         Inl e \<Rightarrow> Inl e
                       | Inr a \<Rightarrow>
                           (case interpolate_some m opt sec rawval depth rest' of
                              Inl e \<Rightarrow> Inl e | Inr t \<Rightarrow> Inr (a @ t)))))
          else Inl (InterpolationSyntaxError opt sec
                 ([CHR 0x27, CHR 0x25, CHR 0x27] @ '' must be followed by ''
                  @ [CHR 0x27, CHR 0x25, CHR 0x27] @ '' or '' @ [CHR 0x27, CHR 0x28, CHR 0x27]
                  @ '', found: '' @ repr rest)))"
  by pat_completeness auto
termination
  by (relation "measures [\<lambda>(m, opt, sec, rawval, depth, rest). Suc MAX_INTERPOLATION_DEPTH - depth,
                          \<lambda>(m, opt, sec, rawval, depth, rest). length rest]")
     (auto dest: match_KEYCRE_shorter)

declare interpolate_some.simps [simp del]

definition before_get :: "sectdict \<Rightarrow> string \<Rightarrow> string \<Rightarrow> string \<Rightarrow> exn + string" where
  "before_get m sec opt v = interpolate_some m opt sec v 1 v"

text \<open>\<open>value.replace('%%', '')\<close>\<close>

fun remove_escaped :: "string \<Rightarrow> string" where
  "remove_escaped (a # b # r) =
     (if a = CHR 0x25 \<and> b = CHR 0x25 then remove_escaped r else a # remove_escaped (b # r))"
| "remove_escaped r = r"

text \<open>\<open>_KEYCRE.sub('', tmp_value)\<close>\<close>

function remove_refs :: "string \<Rightarrow> string" where
  "remove_refs s =
     (case s of
        [] \<Rightarrow> []
      | c # r \<Rightarrow> (case match_KEYCRE s of
                    Some (key, t) \<Rightarrow> remove_refs t
                  | None \<Rightarrow> c # remove_refs r))"
  by pat_completeness auto
termination
  by (relation "measure length") (auto dest: match_KEYCRE_shorter)

declare remove_refs.simps [simp del]

definition before_set :: "string \<Rightarrow> exn + string" where
  "before_set v =
     (let tmp_value = remove_refs (remove_escaped v) in
      if CHR 0x25 \<in> set tmp_value
      then Inl (ValueError (''invalid interpolation syntax in '' @ repr v @ '' at position ''
                  @ str_nat (length (takeWhile (\<lambda>x. x \<noteq> CHR 0x25) tmp_value))))
      else Inr v)"

text \<open>\<open>section in config\<close>\<close>

definition contains :: "ConfigParser \<Rightarrow> string \<Rightarrow> bool" where
  "contains cfg s = (s = DEFAULTSECT \<or> sections cfg s \<noteq> None)"

text \<open>\<open>config[section]\<close>: the proxy of a section, represented by the section's name.\<close>

definition getitem :: "ConfigParser \<Rightarrow> string \<Rightarrow> exn + string" where
  "getitem cfg s =
     (if s \<noteq> DEFAULTSECT \<and> sections cfg s = None then Inl (KeyError s) else Inr s)"

text \<open>
  \<open>_unify_values\<close>: the section's own entries in front of the defaults; \<open>None\<close> stands for
  \<open>NoSectionError\<close>.
\<close>

definition unify_values :: "ConfigParser \<Rightarrow> string \<Rightarrow> sectdict option" where
  "unify_values cfg s =
     (case sections cfg s of
        None \<Rightarrow> if s \<noteq> DEFAULTSECT then None else Some (defaults cfg)
      | Some d \<Rightarrow> Some (defaults cfg ++ d))"

text \<open>\<open>config.get(section, option, fallback=...)\<close>; every call of the program gives a fallback.\<close>

definition config_get :: "ConfigParser \<Rightarrow> string \<Rightarrow> string \<Rightarrow> string \<Rightarrow> exn + string" where
  "config_get cfg s opt fallback =
     (case unify_values cfg s of
        None \<Rightarrow> Inr fallback
      | Some d \<Rightarrow> (case d (lower opt) of
                     None \<Rightarrow> Inr fallback
                   | Some v \<Rightarrow> before_get d s (lower opt) v))"

text \<open>\<open>config[section].get(option, fallback)\<close>\<close>

definition section_get :: "ConfigParser \<Rightarrow> string \<Rightarrow> string \<Rightarrow> string \<Rightarrow> exn + string" where
  "section_get cfg s opt fallback = bind_exn (getitem cfg s) (\<lambda>p. config_get cfg p opt fallback)"

text \<open>\<open>config.has_option(section, option)\<close>: the library's notion of an option being present.\<close>

definition has_option :: "ConfigParser \<Rightarrow> string \<Rightarrow> string \<Rightarrow> bool" where
  "has_option cfg s opt =
     (case unify_values cfg s of None \<Rightarrow> False | Some d \<Rightarrow> d (lower opt) \<noteq> None)"

text \<open>\<open>config.set(section, option, value)\<close>\<close>

definition config_set :: "ConfigParser \<Rightarrow> string \<Rightarrow> string \<Rightarrow> string \<Rightarrow> exn + ConfigParser" where
  "config_set cfg s opt v =
     bind_exn (if v = [] then Inr v else before_set v) (\<lambda>v'.
       if s = [] \<or> s = DEFAULTSECT
       then Inr (cfg\<lparr>defaults := (defaults cfg)(lower opt \<mapsto> v')\<rparr>)
       else (case sections cfg s of
               None \<Rightarrow> Inl (NoSectionError s)
             | Some d \<Rightarrow> Inr (cfg\<lparr>sections := (sections cfg)(s \<mapsto> d(lower opt \<mapsto> v'))\<rparr>)))"

section \<open>Status indicators (js8call\_monitor\_gui.py)\<close>

text \<open>
  \<open>ConnectionStatus\<close>: the port is kept as the string read from the configuration (for the
  log-file indicators it holds the file name).
\<close>

record ConnectionStatus =
  name :: string
  protocol :: string
  host :: string
  port :: string
  connected :: bool

definition ConnectionStatus_init :: "string \<Rightarrow> string \<Rightarrow> string \<Rightarrow> string \<Rightarrow> ConnectionStatus" where
  "ConnectionStatus_init n p h po =
     \<lparr>name = n, protocol = p, host = h, port = po, connected = False\<rparr>"

text \<open>
  \<open>check_connection\<close> returns the flag together with the updated record. The assignment in
  the UDP branch cannot raise, so its \<open>except\<close> branch is never taken.
\<close>

definition check_connection :: "ConnectionStatus \<Rightarrow> bool \<times> ConnectionStatus" where
  "check_connection s =
     (let s' = (if protocol s = ''UDP'' then s\<lparr>connected := True\<rparr>
                else if protocol s = ''TCP'' then s\<lparr>connected := True\<rparr>
                else s)
      in (connected s', s'))"

text \<open>
  The sentence of the specification about the status, as a function of the state of the
  external TCP client: hard-coded for UDP, mirrored from the client for TCP.
\<close>

definition spec_check_connection :: "bool \<Rightarrow> ConnectionStatus \<Rightarrow> bool" where
  "spec_check_connection tcp_client_connected s =
     (if protocol s = ''UDP'' then True
      else if protocol s = ''TCP'' then tcp_client_connected
      else connected s)"

text \<open>The two style sheets of the LED label: background \<open>#00FF00\<close> or \<open>#FF0000\<close>.\<close>

datatype led_colour = Green | Red

record StatusIndicator =
  status :: ConnectionStatus
  led :: led_colour

definition update_led :: "StatusIndicator \<Rightarrow> bool \<Rightarrow> StatusIndicator" where
  "update_led ind c =
     ind\<lparr>led := (if c then Green else Red), status := (status ind)\<lparr>connected := c\<rparr>\<rparr>"

definition StatusIndicator_init :: "string \<Rightarrow> string \<Rightarrow> string \<Rightarrow> string \<Rightarrow> StatusIndicator" where
  "StatusIndicator_init n p h po =
     update_led \<lparr>status = ConnectionStatus_init n p h po, led = Red\<rparr> False"

definition check_status :: "StatusIndicator \<Rightarrow> bool \<times> StatusIndicator" where
  "check_status ind =
     (let (c, s') = check_connection (status ind)
      in (c, update_led (ind\<lparr>status := s'\<rparr>) c))"

text \<open>The body of the loop of \<open>update_status\<close>, for one indicator.\<close>

definition update_one :: "bool \<Rightarrow> StatusIndicator \<Rightarrow> StatusIndicator" where
  "update_one force ind =
     (let ind' = snd (check_status ind)
      in if force then update_led ind' True else ind')"

text \<open>
  The main window: its indicators, the timers it has armed (interval in milliseconds and
  the \<open>force\<close> argument that the callback passes to \<open>update_status\<close>), the lines printed by
  \<open>show_error\<close>, and whether the monitor thread was started.
\<close>

datatype timer = Periodic nat bool | SingleShot nat bool

record JS8CallMonitorGUI =
  status_indicators :: "StatusIndicator list"
  timers :: "timer list"
  printed :: "string list"
  thread_started :: bool

definition update_status :: "bool \<Rightarrow> JS8CallMonitorGUI \<Rightarrow> JS8CallMonitorGUI" where
  "update_status force g = g\<lparr>status_indicators := map (update_one force) (status_indicators g)\<rparr>"

definition show_error :: "string \<Rightarrow> JS8CallMonitorGUI \<Rightarrow> JS8CallMonitorGUI" where
  "show_error error_msg g = g\<lparr>printed := printed g @ [''Error: '' @ error_msg]\<rparr>"

text \<open>
  \<open>start_monitor\<close>. The statements of its \<open>try\<close> block before the single-shot timer create
  the queues, the monitor object and the TCP client or UDP server of the module
  \<open>js8call_monitor\<close> and start the thread; \<open>startup\<close> is their outcome.
\<close>

definition start_monitor :: "exn + unit \<Rightarrow> JS8CallMonitorGUI \<Rightarrow> JS8CallMonitorGUI" where
  "start_monitor startup g =
     (case startup of
        Inl e \<Rightarrow> show_error (''Failed to start monitor: '' @ str_exn e) g
      | Inr _ \<Rightarrow> g\<lparr>thread_started := True, timers := timers g @ [SingleShot 1000 True]\<rparr>)"

text \<open>What a timer does when it fires.\<close>

fun fire :: "timer \<Rightarrow> JS8CallMonitorGUI \<Rightarrow> JS8CallMonitorGUI" where
  "fire (Periodic ms force) g = update_status force g"
| "fire (SingleShot ms force) g = update_status force g"

section \<open>Loading the indicators (JS8CallMonitorGUI.load\_config)\<close>

text \<open>
  The guarded test at the head of \<open>load_config\<close> (and of \<open>start_monitor\<close>): a bare \<open>except\<close>
  turns every exception into \<open>False\<close>.
\<close>

definition tcp_enabled :: "ConfigParser \<Rightarrow> bool" where
  "tcp_enabled cfg =
     (if contains cfg ''TCP''
      then (case bind_exn (section_get cfg ''TCP'' ''enabled'' ''false'') strtobool of
              Inl e \<Rightarrow> False
            | Inr b \<Rightarrow> b)
      else False)"

definition source_indicator :: "ConfigParser \<Rightarrow> exn + StatusIndicator" where
  "source_indicator cfg =
     (if tcp_enabled cfg
      then bind_exn (section_get cfg ''TCP'' ''host'' ''127.0.0.1'') (\<lambda>h.
           bind_exn (section_get cfg ''TCP'' ''port'' ''2171'') (\<lambda>p.
           Inr (StatusIndicator_init ''JS8Call (TCP)'' ''TCP'' h p)))
      else bind_exn (section_get cfg ''JS8Call'' ''host'' ''127.0.0.1'') (\<lambda>h.
           bind_exn (section_get cfg ''JS8Call'' ''port'' ''2242'') (\<lambda>p.
           Inr (StatusIndicator_init ''JS8Call (UDP)'' ''UDP'' h p))))"

text \<open>
  The N1MM and GridTracker blocks have the same shape: the section's \<open>enabled\<close> flag, then
  host and port with their fallbacks.
\<close>

definition udp_client :: "ConfigParser \<Rightarrow> string \<Rightarrow> string \<Rightarrow> string \<Rightarrow> exn + StatusIndicator list" where
  "udp_client cfg sec label default_port =
     bind_exn (section_get cfg sec ''enabled'' ''false'') (\<lambda>v.
     bind_exn (strtobool v) (\<lambda>en.
       if en
       then bind_exn (section_get cfg sec ''host'' ''127.0.0.1'') (\<lambda>h.
            bind_exn (section_get cfg sec ''port'' default_port) (\<lambda>p.
            Inr [StatusIndicator_init label ''UDP'' h p]))
       else Inr []))"

definition geoserver_client :: "ConfigParser \<Rightarrow> exn + StatusIndicator list" where
  "geoserver_client cfg =
     bind_exn (section_get cfg ''GEOSERVER'' ''enabled_msg'' ''false'') (\<lambda>v1.
     bind_exn (strtobool v1) (\<lambda>gs_msg.
     bind_exn (section_get cfg ''GEOSERVER'' ''enabled_spot'' ''false'') (\<lambda>v2.
     bind_exn (strtobool v2) (\<lambda>gs_spot.
       if gs_msg \<or> gs_spot
       then bind_exn (section_get cfg ''GEOSERVER'' ''host'' ''127.0.0.1'') (\<lambda>h.
            bind_exn (section_get cfg ''GEOSERVER'' ''port'' ''8080'') (\<lambda>p.
            Inr [StatusIndicator_init ''GeoServer'' ''UDP'' h p]))
       else Inr []))))"

text \<open>The YAAC and ADIF blocks: the \<open>enabled\<close> flag, then the log file with its fallback.\<close>

definition file_client :: "ConfigParser \<Rightarrow> string \<Rightarrow> string \<Rightarrow> string \<Rightarrow> exn + StatusIndicator list" where
  "file_client cfg sec label default_logfile =
     bind_exn (section_get cfg sec ''enabled'' ''false'') (\<lambda>v.
     bind_exn (strtobool v) (\<lambda>en.
       if en
       then bind_exn (section_get cfg sec ''logfile'' default_logfile) (\<lambda>logfile.
            Inr [StatusIndicator_init label ''FILE'' ''Log'' logfile])
       else Inr []))"

definition load_config :: "ConfigParser \<Rightarrow> JS8CallMonitorGUI \<Rightarrow> exn + JS8CallMonitorGUI" where
  "load_config cfg g =
     bind_exn (source_indicator cfg) (\<lambda>src.
     bind_exn (udp_client cfg ''N1MM'' ''N1MM+'' ''12060'') (\<lambda>n1mm.
     bind_exn (udp_client cfg ''GRIDTRACKER'' ''GridTracker'' ''2237'') (\<lambda>gt.
     bind_exn (geoserver_client cfg) (\<lambda>gs.
     bind_exn (file_client cfg ''YAAC'' ''YAAC'' ''yaac.log'') (\<lambda>yaac.
     bind_exn (file_client cfg ''ADIF'' ''ADIF'' ''adif.log'') (\<lambda>adif.
     Inr (g\<lparr>status_indicators :=
              status_indicators g @ [src] @ n1mm @ gt @ gs @ yaac @ adif\<rparr>)))))))"


text \<open>
  The sections whose proxies \<open>load_config\<close> takes without a test, in the order in which it
  takes them.
\<close>

definition required_sections :: "ConfigParser \<Rightarrow> string list" where
  "required_sections cfg =
     (if tcp_enabled cfg then [] else [''JS8Call''])
     @ [''N1MM'', ''GRIDTRACKER'', ''GEOSERVER'', ''YAAC'', ''ADIF'']"

section \<open>The monitor thread (MonitorThread)\<close>

text \<open>
  What the thread works on: the two queues of the module \<open>js8call_monitor\<close> and the monitor
  object. The methods \<open>parse_json\<close>, \<open>parse_cmd\<close> and \<open>reset_vals\<close> belong to that module,
  which is not part of the two files; they are parameters. Each maps the world to the
  world it leaves behind and to the exception it raised, if any.
\<close>

record ('a, 'm) world =
  msgQueue :: "'a list"
  cmdQueue :: "'a list"
  monitor :: 'm

record ('a, 'm) monitor_ops =
  parse_json :: "('a, 'm) world \<Rightarrow> exn option \<times> ('a, 'm) world"
  parse_cmd :: "('a, 'm) world \<Rightarrow> exn option \<times> ('a, 'm) world"
  reset_vals :: "('a, 'm) world \<Rightarrow> exn option \<times> ('a, 'm) world"

text \<open>
  The control points of \<open>run\<close>: the test of \<open>self.running\<close>, the test of each inner loop and
  the two calls of its body, the sleep, and the end of \<open>run\<close>.
\<close>

datatype pc = Head | MsgTest | MsgParse | MsgReset | CmdTest | CmdParse | CmdReset | Sleep | Exited

text \<open>
  What the thread does that can be observed: an outer iteration begins, a method of the
  monitor is called, the thread sleeps (milliseconds), \<open>error_signal\<close> is emitted.
\<close>

datatype event = Begin | ParseJson | ParseCmd | ResetVals | Slept nat | Emitted string

record ('a, 'm) thread =
  at :: pc
  running :: bool
  world :: "('a, 'm) world"
  trace :: "event list"


text \<open>
  A call inside the \<open>try\<close> block: on an exception the handler emits \<open>str(e)\<close> and control
  returns to the test of \<open>self.running\<close>; otherwise control moves on to \<open>next\<close>.
\<close>

definition call ::
  "event \<Rightarrow> (('a, 'm) world \<Rightarrow> exn option \<times> ('a, 'm) world) \<Rightarrow> pc \<Rightarrow> ('a, 'm) thread \<Rightarrow> ('a, 'm) thread" where
  "call ev f next s =
     (case f (world s) of
        (Some e, w) \<Rightarrow> s\<lparr>at := Head, world := w, trace := trace s @ [ev, Emitted (str_exn e)]\<rparr>
      | (None, w) \<Rightarrow> s\<lparr>at := next, world := w, trace := trace s @ [ev]\<rparr>)"

text \<open>One step of \<open>run\<close>.\<close>

definition step :: "('a, 'm) monitor_ops \<Rightarrow> ('a, 'm) thread \<Rightarrow> ('a, 'm) thread" where
  "step ops s =
     (case at s of
        Head \<Rightarrow> if running s then s\<lparr>at := MsgTest, trace := trace s @ [Begin]\<rparr>
                else s\<lparr>at := Exited\<rparr>
      | MsgTest \<Rightarrow> if msgQueue (world s) \<noteq> [] then s\<lparr>at := MsgParse\<rparr> else s\<lparr>at := CmdTest\<rparr>
      | MsgParse \<Rightarrow> call ParseJson (parse_json ops) MsgReset s
      | MsgReset \<Rightarrow> call ResetVals (reset_vals ops) MsgTest s
      | CmdTest \<Rightarrow> if cmdQueue (world s) \<noteq> [] then s\<lparr>at := CmdParse\<rparr> else s\<lparr>at := Sleep\<rparr>
      | CmdParse \<Rightarrow> call ParseCmd (parse_cmd ops) CmdReset s
      | CmdReset \<Rightarrow> call ResetVals (reset_vals ops) CmdTest s
      | Sleep \<Rightarrow> s\<lparr>at := Head, trace := trace s @ [Slept 500]\<rparr>
      | Exited \<Rightarrow> s)"

definition stop :: "('a, 'm) thread \<Rightarrow> ('a, 'm) thread" where
  "stop s = s\<lparr>running := False\<rparr>"

text \<open>
  The thread runs beside the GUI thread, which may call \<open>stop\<close>, and beside the producers
  that put items on the queues. A schedule is a list of actions; \<open>exec\<close> runs it.
\<close>

datatype 'a action = ThreadStep | Stop | PutMsg 'a | PutCmd 'a

fun act :: "('a, 'm) monitor_ops \<Rightarrow> 'a action \<Rightarrow> ('a, 'm) thread \<Rightarrow> ('a, 'm) thread" where
  "act ops ThreadStep s = step ops s"
| "act ops Stop s = stop s"
| "act ops (PutMsg x) s = s\<lparr>world := (world s)\<lparr>msgQueue := msgQueue (world s) @ [x]\<rparr>\<rparr>"
| "act ops (PutCmd x) s = s\<lparr>world := (world s)\<lparr>cmdQueue := cmdQueue (world s) @ [x]\<rparr>\<rparr>"

fun exec :: "('a, 'm) monitor_ops \<Rightarrow> 'a action list \<Rightarrow> ('a, 'm) thread \<Rightarrow> ('a, 'm) thread" where
  "exec ops [] s = s"
| "exec ops (a # as) s = exec ops as (act ops a s)"

definition iterations_begun :: "('a, 'm) thread \<Rightarrow> nat" where
  "iterations_begun s = length (filter (\<lambda>e. e = Begin) (trace s))"

text \<open>
  The behaviour of the monitor's methods that the sentence "once per queued item" relies
  on: \<open>parse_json\<close> takes one item off a non-empty message queue and \<open>parse_cmd\<close> one item
  off a non-empty command queue, each leaving the other queue alone, \<open>reset_vals\<close>
  leaves both queues alone, and none of them raises.
\<close>

definition consumes_one :: "('a, 'm) monitor_ops \<Rightarrow> bool" where
  "consumes_one ops =
     (\<forall>w. (msgQueue w \<noteq> [] \<longrightarrow>
              fst (parse_json ops w) = None
              \<and> msgQueue (snd (parse_json ops w)) = tl (msgQueue w)
              \<and> cmdQueue (snd (parse_json ops w)) = cmdQueue w)
        \<and> (cmdQueue w \<noteq> [] \<longrightarrow>
              fst (parse_cmd ops w) = None
              \<and> cmdQueue (snd (parse_cmd ops w)) = tl (cmdQueue w)
              \<and> msgQueue (snd (parse_cmd ops w)) = msgQueue w)
        \<and> fst (reset_vals ops w) = None
        \<and> msgQueue (snd (reset_vals ops w)) = msgQueue w
        \<and> cmdQueue (snd (reset_vals ops w)) = cmdQueue w)"

text \<open>Methods that do exactly that and nothing else.\<close>

definition pop_ops :: "('a, 'm) monitor_ops" where
  "pop_ops =
     \<lparr>parse_json = (\<lambda>w. (None, w\<lparr>msgQueue := tl (msgQueue w)\<rparr>)),
      parse_cmd = (\<lambda>w. (None, w\<lparr>cmdQueue := tl (cmdQueue w)\<rparr>)),
      reset_vals = (\<lambda>w. (None, w))\<rparr>"


text \<open>\<open>n\<close> steps of the thread on its own.\<close>

definition steps :: "('a, 'm) monitor_ops \<Rightarrow> nat \<Rightarrow> ('a, 'm) thread \<Rightarrow> ('a, 'm) thread" where
  "steps ops n s = (step ops ^^ n) s"

section \<open>The settings dialog (settings.py)\<close>

text \<open>
  What a form widget holds: a \<open>QLineEdit\<close> its text, a \<open>QCheckBox\<close> its state, a \<open>QSpinBox\<close>
  its value.
\<close>

datatype wval = Text string | Checked bool | Value int

text \<open>The three kinds of widget; a spin box comes with the range given to \<open>setRange\<close>.\<close>

datatype kind = LineEdit | CheckBox | SpinBox int int

text \<open>
  One form field: the attribute that holds the widget, the section and option it is read
  from and written to, the \<open>fallback\<close> of its \<open>config.get\<close>, and its kind.
\<close>

record field =
  f_widget :: string
  f_section :: string
  f_option :: string
  f_fallback :: string
  f_kind :: kind

text \<open>
  The fields of the seven tabs, in the order in which \<open>init_ui\<close> creates them; \<open>save_config\<close>
  writes them in the same order.
\<close>

definition form_fields :: "field list" where
  "form_fields =
     [
      \<lparr>f_widget = ''operator_edit'', f_section = ''STATION'', f_option = ''operator'', f_fallback = '''', f_kind = LineEdit\<rparr>,
      \<lparr>f_widget = ''class_edit'', f_section = ''STATION'', f_option = ''class'', f_fallback = '''', f_kind = LineEdit\<rparr>,
      \<lparr>f_widget = ''my_grid_edit'', f_section = ''STATION'', f_option = ''my_gridsquare'', f_fallback = '''', f_kind = LineEdit\<rparr>,
      \<lparr>f_widget = ''my_name_edit'', f_section = ''STATION'', f_option = ''my_name'', f_fallback = '''', f_kind = LineEdit\<rparr>,
      \<lparr>f_widget = ''my_county_edit'', f_section = ''STATION'', f_option = ''my_county'', f_fallback = '''', f_kind = LineEdit\<rparr>,
      \<lparr>f_widget = ''tcp_enabled'', f_section = ''TCP'', f_option = ''enabled'', f_fallback = ''false'', f_kind = CheckBox\<rparr>,
      \<lparr>f_widget = ''tcp_host_edit'', f_section = ''TCP'', f_option = ''host'', f_fallback = ''127.0.0.1'', f_kind = LineEdit\<rparr>,
      \<lparr>f_widget = ''tcp_port_edit'', f_section = ''TCP'', f_option = ''port'', f_fallback = ''2171'', f_kind = (SpinBox 1 65535)\<rparr>,
      \<lparr>f_widget = ''tcp_poll_edit'', f_section = ''TCP'', f_option = ''poll_status_interval'', f_fallback = ''5'', f_kind = (SpinBox 1 60)\<rparr>,
      \<lparr>f_widget = ''udp_host_edit'', f_section = ''JS8Call'', f_option = ''host'', f_fallback = ''127.0.0.1'', f_kind = LineEdit\<rparr>,
      \<lparr>f_widget = ''udp_port_edit'', f_section = ''JS8Call'', f_option = ''port'', f_fallback = ''2242'', f_kind = (SpinBox 1 65535)\<rparr>,
      \<lparr>f_widget = ''n1mm_enabled'', f_section = ''N1MM'', f_option = ''enabled'', f_fallback = ''false'', f_kind = CheckBox\<rparr>,
      \<lparr>f_widget = ''n1mm_host_edit'', f_section = ''N1MM'', f_option = ''host'', f_fallback = ''127.0.0.1'', f_kind = LineEdit\<rparr>,
      \<lparr>f_widget = ''n1mm_port_edit'', f_section = ''N1MM'', f_option = ''port'', f_fallback = ''12060'', f_kind = (SpinBox 1 65535)\<rparr>,
      \<lparr>f_widget = ''gt_enabled'', f_section = ''GRIDTRACKER'', f_option = ''enabled'', f_fallback = ''false'', f_kind = CheckBox\<rparr>,
      \<lparr>f_widget = ''gt_host_edit'', f_section = ''GRIDTRACKER'', f_option = ''host'', f_fallback = ''127.0.0.1'', f_kind = LineEdit\<rparr>,
      \<lparr>f_widget = ''gt_port_edit'', f_section = ''GRIDTRACKER'', f_option = ''port'', f_fallback = ''2237'', f_kind = (SpinBox 1 65535)\<rparr>,
      \<lparr>f_widget = ''gs_msg_enabled'', f_section = ''GEOSERVER'', f_option = ''enabled_msg'', f_fallback = ''false'', f_kind = CheckBox\<rparr>,
      \<lparr>f_widget = ''gs_spot_enabled'', f_section = ''GEOSERVER'', f_option = ''enabled_spot'', f_fallback = ''false'', f_kind = CheckBox\<rparr>,
      \<lparr>f_widget = ''gs_host_edit'', f_section = ''GEOSERVER'', f_option = ''host'', f_fallback = ''127.0.0.1'', f_kind = LineEdit\<rparr>,
      \<lparr>f_widget = ''gs_port_edit'', f_section = ''GEOSERVER'', f_option = ''port'', f_fallback = ''8080'', f_kind = (SpinBox 1 65535)\<rparr>,
      \<lparr>f_widget = ''gs_token_edit'', f_section = ''GEOSERVER'', f_option = ''token'', f_fallback = '''', f_kind = LineEdit\<rparr>,
      \<lparr>f_widget = ''yaac_enabled'', f_section = ''YAAC'', f_option = ''enabled'', f_fallback = ''false'', f_kind = CheckBox\<rparr>,
      \<lparr>f_widget = ''yaac_logfile_edit'', f_section = ''YAAC'', f_option = ''logfile'', f_fallback = ''yaac.log'', f_kind = LineEdit\<rparr>,
      \<lparr>f_widget = ''adif_enabled'', f_section = ''ADIF'', f_option = ''enabled'', f_fallback = ''false'', f_kind = CheckBox\<rparr>,
      \<lparr>f_widget = ''adif_logfile_edit'', f_section = ''ADIF'', f_option = ''logfile'', f_fallback = ''adif.log'', f_kind = LineEdit\<rparr>,
      \<lparr>f_widget = ''db_location_edit'', f_section = ''DATABASES'', f_option = ''location'', f_fallback = ''./'', f_kind = LineEdit\<rparr>,
      \<lparr>f_widget = ''fcc_enabled'', f_section = ''DATABASES'', f_option = ''FccData'', f_fallback = ''false'', f_kind = CheckBox\<rparr>,
      \<lparr>f_widget = ''hamcallcd_enabled'', f_section = ''DATABASES'', f_option = ''HamCallCD'', f_fallback = ''false'', f_kind = CheckBox\<rparr>,
      \<lparr>f_widget = ''raccd_enabled'', f_section = ''DATABASES'', f_option = ''RacCD'', f_fallback = ''false'', f_kind = CheckBox\<rparr>,
      \<lparr>f_widget = ''local_enabled'', f_section = ''DATABASES'', f_option = ''LocalDB'', f_fallback = ''false'', f_kind = CheckBox\<rparr>,
      \<lparr>f_widget = ''local_learn'', f_section = ''DATABASES'', f_option = ''LocalDB_learn'', f_fallback = ''false'', f_kind = CheckBox\<rparr>,
      \<lparr>f_widget = ''collect_rejects'', f_section = ''DATABASES'', f_option = ''Collect_Rejects'', f_fallback = ''false'', f_kind = CheckBox\<rparr>,
      \<lparr>f_widget = ''callook_enabled'', f_section = ''DATABASES'', f_option = ''Callook'', f_fallback = ''false'', f_kind = CheckBox\<rparr>,
      \<lparr>f_widget = ''hamcallol_enabled'', f_section = ''DATABASES'', f_option = ''HamCallOnline'', f_fallback = ''false'', f_kind = CheckBox\<rparr>,
      \<lparr>f_widget = ''hc_username_edit'', f_section = ''DATABASES'', f_option = ''HCusername'', f_fallback = '''', f_kind = LineEdit\<rparr>,
      \<lparr>f_widget = ''hc_password_edit'', f_section = ''DATABASES'', f_option = ''HCpassword'', f_fallback = '''', f_kind = LineEdit\<rparr>,
      \<lparr>f_widget = ''console_level'', f_section = ''DEBUG'', f_option = ''consolelevel'', f_fallback = ''0'', f_kind = (SpinBox 0 10)\<rparr>,
      \<lparr>f_widget = ''logfile_level'', f_section = ''DEBUG'', f_option = ''logfilelevel'', f_fallback = ''0'', f_kind = (SpinBox 0 10)\<rparr>,
      \<lparr>f_widget = ''logfile_edit'', f_section = ''DEBUG'', f_option = ''logfile'', f_fallback = ''js8monitor.log'', f_kind = LineEdit\<rparr>,
      \<lparr>f_widget = ''smtp_enabled'', f_section = ''SMTP'', f_option = ''enabled'', f_fallback = ''false'', f_kind = CheckBox\<rparr>,
      \<lparr>f_widget = ''smtp_host_edit'', f_section = ''SMTP'', f_option = ''host'', f_fallback = '''', f_kind = LineEdit\<rparr>,
      \<lparr>f_widget = ''smtp_port_edit'', f_section = ''SMTP'', f_option = ''port'', f_fallback = ''587'', f_kind = (SpinBox 1 65535)\<rparr>,
      \<lparr>f_widget = ''smtp_user_edit'', f_section = ''SMTP'', f_option = ''user'', f_fallback = '''', f_kind = LineEdit\<rparr>,
      \<lparr>f_widget = ''smtp_pass_edit'', f_section = ''SMTP'', f_option = ''pass'', f_fallback = '''', f_kind = LineEdit\<rparr>,
      \<lparr>f_widget = ''mail_from_edit'', f_section = ''SMTP'', f_option = ''mailfrom'', f_fallback = '''', f_kind = LineEdit\<rparr>,
      \<lparr>f_widget = ''mail_to_edit'', f_section = ''SMTP'', f_option = ''mailto'', f_fallback = '''', f_kind = LineEdit\<rparr>,
      \<lparr>f_widget = ''grid_length'', f_section = ''GRIDS'', f_option = ''gridlength'', f_fallback = ''6'', f_kind = (SpinBox 1 11)\<rparr>,
      \<lparr>f_widget = ''grid_frominfo'', f_section = ''GRIDS'', f_option = ''frominfo'', f_fallback = ''false'', f_kind = CheckBox\<rparr>,
      \<lparr>f_widget = ''map_all'', f_section = ''GRIDS'', f_option = ''map_all'', f_fallback = ''false'', f_kind = CheckBox\<rparr>,
      \<lparr>f_widget = ''map_cq'', f_section = ''GRIDS'', f_option = ''map_cq'', f_fallback = ''true'', f_kind = CheckBox\<rparr>,
      \<lparr>f_widget = ''map_heartbeat'', f_section = ''GRIDS'', f_option = ''map_heartbeat'', f_fallback = ''true'', f_kind = CheckBox\<rparr>,
      \<lparr>f_widget = ''map_info'', f_section = ''GRIDS'', f_option = ''map_info'', f_fallback = ''true'', f_kind = CheckBox\<rparr>,
      \<lparr>f_widget = ''map_status'', f_section = ''GRIDS'', f_option = ''map_status'', f_fallback = ''true'', f_kind = CheckBox\<rparr>,
      \<lparr>f_widget = ''map_log'', f_section = ''GRIDS'', f_option = ''map_log'', f_fallback = ''true'', f_kind = CheckBox\<rparr>,
      \<lparr>f_widget = ''map_qso'', f_section = ''GRIDS'', f_option = ''map_qso'', f_fallback = ''true'', f_kind = CheckBox\<rparr>,
      \<lparr>f_widget = ''map_snr'', f_section = ''GRIDS'', f_option = ''map_snr'', f_fallback = ''true'', f_kind = CheckBox\<rparr>,
      \<lparr>f_widget = ''auto_close'', f_section = ''GRIDS'', f_option = ''auto_close'', f_fallback = ''false'', f_kind = CheckBox\<rparr>,
      \<lparr>f_widget = ''auth_enabled'', f_section = ''AUTH'', f_option = ''enabled'', f_fallback = ''false'', f_kind = CheckBox\<rparr>,
      \<lparr>f_widget = ''auth_token_edit'', f_section = ''AUTH'', f_option = ''token'', f_fallback = '''', f_kind = LineEdit\<rparr>
     ]"

text \<open>\<open>QLineEdit(text)\<close>: the line edit holds the text it is constructed with.\<close>

definition QLineEdit :: "string \<Rightarrow> wval" where
  "QLineEdit t = Text t"

text \<open>
  \<open>setRange(lo, hi)\<close> followed by \<open>setValue(n)\<close>: the argument has to fit a C \<open>int\<close>, and the
  value is bounded to the range.
\<close>

definition setValue :: "int \<Rightarrow> int \<Rightarrow> int \<Rightarrow> exn + wval" where
  "setValue lo hi n =
     (if n < - 2147483648 \<or> 2147483647 < n
      then Inl (OverflowError
             ''argument 1 overflowed: value must be in the range -2147483648 to 2147483647'')
      else Inr (Value (max lo (min hi n))))"

text \<open>The creation of one field's widget from the configuration.\<close>

definition load_field :: "ConfigParser \<Rightarrow> field \<Rightarrow> exn + wval" where
  "load_field cfg f =
     bind_exn (config_get cfg (f_section f) (f_option f) (f_fallback f)) (\<lambda>v.
       case f_kind f of
         LineEdit \<Rightarrow> Inr (QLineEdit v)
       | CheckBox \<Rightarrow> bind_exn (strtobool v) (\<lambda>b. Inr (Checked b))
       | SpinBox lo hi \<Rightarrow> bind_exn (py_int v) (setValue lo hi))"

fun create_widgets ::
  "ConfigParser \<Rightarrow> field list \<Rightarrow> (string \<Rightarrow> wval) \<Rightarrow> exn + (string \<Rightarrow> wval)" where
  "create_widgets cfg [] w = Inr w"
| "create_widgets cfg (f # fs) w =
     bind_exn (load_field cfg f) (\<lambda>v. create_widgets cfg fs (w(f_widget f := v)))"

datatype dialog_result = Open | Accepted | Rejected

record SettingsDialog =
  config :: ConfigParser
  widgets :: "string \<Rightarrow> wval"
  result :: dialog_result

datatype message_box =
    Question string string
  | Information string string
  | Critical string string

text \<open>
  What the dialog acts on outside itself: the file \<open>config\<close> (its text; \<open>None\<close> when the file
  does not exist or cannot be opened for reading), the texts that were put into the file,
  the exception that \<open>open('config', 'w')\<close> raises, if any, and the message boxes shown so
  far.
\<close>

record 'txt desktop =
  config_file :: "'txt option"
  writes :: "'txt list"
  open_error :: "exn option"
  boxes :: "message_box list"

text \<open>
  The two operations of the parser on the text of a file. \<open>read_text\<close> is what
  \<open>config.read\<close> makes of the text of an existing file, or the exception it raises.
  \<open>write_text\<close> is what \<open>config.write\<close> does with a parser object on the file just opened
  for writing, which \<open>open\<close> has emptied: the exception it raises, if any, and the text it
  leaves in the file. Neither is assumed to undo the other.
\<close>

record 'txt parser_io =
  read_text :: "'txt \<Rightarrow> exn + ConfigParser"
  write_text :: "ConfigParser \<Rightarrow> exn option \<times> 'txt"

text \<open>\<open>config.read('config')\<close>: a file that cannot be opened is skipped.\<close>

definition read_config :: "'txt parser_io \<Rightarrow> 'txt desktop \<Rightarrow> exn + ConfigParser" where
  "read_config io env =
     (case config_file env of
        None \<Rightarrow> Inr \<lparr>defaults = Map.empty, sections = Map.empty\<rparr>
      | Some t \<Rightarrow> read_text io t)"

definition SettingsDialog_init :: "'txt parser_io \<Rightarrow> 'txt desktop \<Rightarrow> exn + SettingsDialog" where
  "SettingsDialog_init io env =
     bind_exn (read_config io env) (\<lambda>cfg.
     bind_exn (create_widgets cfg form_fields (\<lambda>n. Text []))
       (\<lambda>w. Inr \<lparr>config = cfg, widgets = w, result = Open\<rparr>))"

text \<open>
  What \<open>save_config\<close> passes to \<open>config.set\<close> for a widget: \<open>text()\<close>,
  \<open>str(isChecked()).lower()\<close> or \<open>str(value())\<close>.
\<close>

fun render :: "wval \<Rightarrow> string" where
  "render (Text t) = t"
| "render (Checked b) = lower (str_bool b)"
| "render (Value n) = str_int n"

text \<open>
  The \<open>config.set\<close> calls of \<open>save_config\<close>. The parser is updated in place, so the calls made
  before an exception stay in effect.
\<close>

fun set_fields ::
  "ConfigParser \<Rightarrow> (string \<Rightarrow> wval) \<Rightarrow> field list \<Rightarrow> exn option \<times> ConfigParser" where
  "set_fields cfg w [] = (None, cfg)"
| "set_fields cfg w (f # fs) =
     (case config_set cfg (f_section f) (f_option f) (render (w (f_widget f))) of
        Inl e \<Rightarrow> (Some e, cfg)
      | Inr cfg' \<Rightarrow> set_fields cfg' w fs)"

text \<open>
  The exception that ends the \<open>try\<close> block of \<open>save_config\<close>, if there is one: of a
  \<open>config.set\<close>, of \<open>open\<close>, or of \<open>config.write\<close>.
\<close>

definition save_error :: "'txt parser_io \<Rightarrow> SettingsDialog \<Rightarrow> 'txt desktop \<Rightarrow> exn option" where
  "save_error io dlg env =
     (case fst (set_fields (config dlg) (widgets dlg) form_fields) of
        Some e \<Rightarrow> Some e
      | None \<Rightarrow>
          (case open_error env of
             Some e \<Rightarrow> Some e
           | None \<Rightarrow> fst (write_text io (snd (set_fields (config dlg) (widgets dlg) form_fields)))))"

text \<open>
  Whether \<open>save_config\<close> gets as far as \<open>config.write\<close>; from then on the file holds what the
  write leaves in it.
\<close>

definition file_opened :: "SettingsDialog \<Rightarrow> 'txt desktop \<Rightarrow> bool" where
  "file_opened dlg env =
     (fst (set_fields (config dlg) (widgets dlg) form_fields) = None \<and> open_error env = None)"

definition save_config ::
  "'txt parser_io \<Rightarrow> SettingsDialog \<Rightarrow> 'txt desktop \<Rightarrow> SettingsDialog \<times> 'txt desktop" where
  "save_config io dlg env =
     (let cfg' = snd (set_fields (config dlg) (widgets dlg) form_fields);
          env' = (if file_opened dlg env
                  then env\<lparr>config_file := Some (snd (write_text io cfg')),
                           writes := writes env @ [snd (write_text io cfg')]\<rparr>
                  else env)
      in case save_error io dlg env of
        Some e \<Rightarrow>
          (dlg\<lparr>config := cfg'\<rparr>,
           env'\<lparr>boxes := boxes env @
             [Critical ''Error Saving Settings''
                (''Failed to save configuration:'' @ [CHR 0x0A] @ str_exn e)]\<rparr>)
      | None \<Rightarrow>
          (dlg\<lparr>config := cfg', result := Accepted\<rparr>,
           env'\<lparr>boxes := boxes env @
             [Information ''Settings Saved''
                (''Configuration saved successfully!'' @ [CHR 0x0A, CHR 0x0A]
                 @ ''Please restart the application for changes to take effect.'')]\<rparr>))"

datatype reply = Yes | No

definition restore_defaults ::
  "reply \<Rightarrow> SettingsDialog \<Rightarrow> 'txt desktop \<Rightarrow> SettingsDialog \<times> 'txt desktop" where
  "restore_defaults r dlg env =
     (dlg,
      env\<lparr>boxes := boxes env @
        [Question ''Restore Defaults''
           (''Are you sure you want to restore default settings?'' @ [CHR 0x0A]
            @ ''This will require restarting the application.'')]
        @ (if r = Yes
           then [Information ''Restore Defaults''
                   (''Please manually restore your config file backup.'' @ [CHR 0x0A]
                    @ ''A restart will be required.'')]
           else [])\<rparr>)"

text \<open>The value stored under an option in a section's own dictionary.\<close>

definition stored :: "ConfigParser \<Rightarrow> string \<Rightarrow> string \<Rightarrow> string option" where
  "stored cfg s opt = (case sections cfg s of None \<Rightarrow> None | Some d \<Rightarrow> d (lower opt))"

text \<open>Whether a section and option are the ones of some form field.\<close>

definition bound :: "string \<Rightarrow> string \<Rightarrow> bool" where
  "bound s opt = (\<exists>f \<in> set form_fields. f_section f = s \<and> lower (f_option f) = lower opt)"

text \<open>
  A list of fields none of which names the \<open>DEFAULT\<close> section or no section, and the key
  under which the parser files a field's option.
\<close>

definition named :: "field list \<Rightarrow> bool" where
  "named fs = (\<forall>f \<in> set fs. f_section f \<noteq> [] \<and> f_section f \<noteq> DEFAULTSECT)"

definition key :: "field \<Rightarrow> string \<times> string" where
  "key f = (f_section f, lower (f_option f))"

text \<open>Opening the dialog and pressing Save at once.\<close>

definition open_and_save ::
  "'txt parser_io \<Rightarrow> 'txt desktop \<Rightarrow> exn + SettingsDialog \<times> 'txt desktop" where
  "open_and_save io env =
     bind_exn (SettingsDialog_init io env) (\<lambda>dlg. Inr (save_config io dlg env))"

section \<open>Example configurations\<close>

text \<open>A configuration with the six sections the main window needs, all of them empty.\<close>

definition empty_sections :: ConfigParser where
  "empty_sections = \<lparr>defaults = Map.empty,
     sections = [''JS8Call'' \<mapsto> Map.empty, ''N1MM'' \<mapsto> Map.empty, ''GRIDTRACKER'' \<mapsto> Map.empty,
                 ''GEOSERVER'' \<mapsto> Map.empty, ''YAAC'' \<mapsto> Map.empty, ''ADIF'' \<mapsto> Map.empty]\<rparr>"

text \<open>What \<open>config.read\<close> leaves when the file does not exist.\<close>

definition no_config :: ConfigParser where
  "no_config = \<lparr>defaults = Map.empty, sections = Map.empty\<rparr>"

text \<open>
  A configuration without the section \<open>ADIF\<close>, in which the flag of \<open>N1MM\<close> is not a word
  that \<open>strtobool\<close> knows.
\<close>

definition bad_flag_config :: ConfigParser where
  "bad_flag_config = \<lparr>defaults = Map.empty,
     sections = [''JS8Call'' \<mapsto> Map.empty, ''N1MM'' \<mapsto> [''enabled'' \<mapsto> ''maybe''],
                 ''GRIDTRACKER'' \<mapsto> Map.empty, ''GEOSERVER'' \<mapsto> Map.empty,
                 ''YAAC'' \<mapsto> Map.empty]\<rparr>"

text \<open>The main window as \<open>__init__\<close> has it before \<open>load_config\<close>.\<close>

definition new_window :: JS8CallMonitorGUI where
  "new_window = \<lparr>status_indicators = [], timers = [], printed = [], thread_started = False\<rparr>"

text \<open>The numeric defaults that the specification names, by widget.\<close>

definition default_numbers :: "(string \<times> int) list" where
  "default_numbers =
     [(''tcp_port_edit'', 2171), (''udp_port_edit'', 2242), (''n1mm_port_edit'', 12060),
      (''gt_port_edit'', 2237), (''gs_port_edit'', 8080), (''smtp_port_edit'', 587),
      (''grid_length'', 6)]"

text \<open>
  A configuration with all thirteen sections, some options set, and one option
  (\<open>note\<close>) that no form field is bound to.
\<close>

definition all_sections :: ConfigParser where
  "all_sections = \<lparr>defaults = Map.empty,
     sections =
       [''STATION'' \<mapsto> [''operator'' \<mapsto> ''N0CALL'', ''note'' \<mapsto> ''keep me''],
        ''TCP'' \<mapsto> [''enabled'' \<mapsto> ''yes'', ''poll_status_interval'' \<mapsto> ''007''],
        ''JS8Call'' \<mapsto> Map.empty, ''N1MM'' \<mapsto> Map.empty, ''GRIDTRACKER'' \<mapsto> Map.empty,
        ''GEOSERVER'' \<mapsto> Map.empty, ''YAAC'' \<mapsto> Map.empty, ''ADIF'' \<mapsto> Map.empty,
        ''DATABASES'' \<mapsto> Map.empty, ''DEBUG'' \<mapsto> Map.empty, ''SMTP'' \<mapsto> Map.empty,
        ''GRIDS'' \<mapsto> Map.empty, ''AUTH'' \<mapsto> Map.empty]\<rparr>"




definition plain_io :: "ConfigParser parser_io" where
  "plain_io = \<lparr>read_text = Inr, write_text = (\<lambda>c. (None, c))\<rparr>"

definition full_disk_io :: "ConfigParser parser_io" where
  "full_disk_io =
     \<lparr>read_text = Inr,
      write_text = (\<lambda>c. (Some (OSError ''[Errno 28] No space left on device''),
                          \<lparr>defaults = Map.empty, sections = Map.empty\<rparr>))\<rparr>"

definition desktop_with :: "ConfigParser \<Rightarrow> ConfigParser desktop" where
  "desktop_with c = \<lparr>config_file = Some c, writes = [], open_error = None, boxes = []\<rparr>"

text \<open>A configuration that lacks the section \<open>ADIF\<close> only, with every other section empty.\<close>

definition no_adif_config :: ConfigParser where
  "no_adif_config = \<lparr>defaults = Map.empty,
     sections = [''JS8Call'' \<mapsto> Map.empty, ''N1MM'' \<mapsto> Map.empty, ''GRIDTRACKER'' \<mapsto> Map.empty,
                 ''GEOSERVER'' \<mapsto> Map.empty, ''YAAC'' \<mapsto> Map.empty]\<rparr>"

text \<open>
  A configuration whose section \<open>TCP\<close> is empty, with a \<open>port\<close> in the \<open>DEFAULT\<close> section.
\<close>

definition inherited_port :: ConfigParser where
  "inherited_port = \<lparr>defaults = [''port'' \<mapsto> ''9999''], sections = [''TCP'' \<mapsto> Map.empty]\<rparr>"



section \<open>Verified properties\<close>

subsection \<open>Connection status\<close>

text \<open>
  C1 (as stated, refuted). For a TCP status record whose flag is \<open>False\<close> and an external
  client that is not connected, \<open>check_connection\<close> returns \<open>True\<close>, not the client's value.
\<close>

theorem check_connection_tcp_not_mirrored:
  "fst (check_connection \<lparr>name = ''JS8Call (TCP)'', protocol = ''TCP'', host = ''127.0.0.1'',
          port = ''2171'', connected = False\<rparr>)
   \<noteq> spec_check_connection False \<lparr>name = ''JS8Call (TCP)'', protocol = ''TCP'',
          host = ''127.0.0.1'', port = ''2171'', connected = False\<rparr>"
  by (simp add: check_connection_def spec_check_connection_def)

text \<open>
  C1 (amended). For protocol \<open>UDP\<close> and for protocol \<open>TCP\<close> alike, \<open>check_connection\<close> returns
  \<open>True\<close> and sets the connected flag to \<open>True\<close>: the value is the same hard-coded constant
  in both branches and nothing is read from a client object. For any other protocol the
  record is unchanged and its current flag is returned.
\<close>

theorem check_connection_hard_coded:
  "(protocol s = ''UDP'' \<or> protocol s = ''TCP'' \<longrightarrow>
      check_connection s = (True, s\<lparr>connected := True\<rparr>))
   \<and> (protocol s \<noteq> ''UDP'' \<and> protocol s \<noteq> ''TCP'' \<longrightarrow>
      check_connection s = (connected s, s))"
  by (simp add: check_connection_def)

theorem check_connection_hard_coded_witness:
  "check_connection \<lparr>name = ''JS8Call (TCP)'', protocol = ''TCP'', host = ''127.0.0.1'',
       port = ''2171'', connected = False\<rparr>
   = (True, \<lparr>name = ''JS8Call (TCP)'', protocol = ''TCP'', host = ''127.0.0.1'',
       port = ''2171'', connected = True\<rparr>)
   \<and> check_connection \<lparr>name = ''YAAC'', protocol = ''FILE'', host = ''Log'',
       port = ''yaac.log'', connected = False\<rparr>
   = (False, \<lparr>name = ''YAAC'', protocol = ''FILE'', host = ''Log'',
       port = ''yaac.log'', connected = False\<rparr>)"
  using check_connection_hard_coded [of "\<lparr>name = ''JS8Call (TCP)'', protocol = ''TCP'',
      host = ''127.0.0.1'', port = ''2171'', connected = False\<rparr>"]
    check_connection_hard_coded [of "\<lparr>name = ''YAAC'', protocol = ''FILE'', host = ''Log'',
      port = ''yaac.log'', connected = False\<rparr>"]
  by simp

subsection \<open>Forced status update\<close>

lemma update_one_forced:
  "led (update_one True ind) = Green \<and> connected (status (update_one True ind))"
  by (simp add: update_one_def update_led_def Let_def)

text \<open>
  C10. A successful \<open>start_monitor\<close> arms a single-shot timer of 1000 ms whose callback is
  \<open>update_status(force=True)\<close>; when it fires, every indicator's LED is green and every
  connected flag is \<open>True\<close>, whatever the indicators' protocols and previous states.
\<close>

theorem forced_update_after_start:
  "timers (start_monitor (Inr ()) g) = timers g @ [SingleShot 1000 True]
   \<and> (\<forall>ind \<in> set (status_indicators (fire (SingleShot 1000 True) (start_monitor (Inr ()) g))).
         led ind = Green \<and> connected (status ind))
   \<and> length (status_indicators (fire (SingleShot 1000 True) (start_monitor (Inr ()) g)))
       = length (status_indicators g)"
  by (auto simp: start_monitor_def update_status_def update_one_forced)

theorem forced_update_after_start_witness:
  "status_indicators (fire (SingleShot 1000 True) (start_monitor (Inr ())
      \<lparr>status_indicators = [StatusIndicator_init ''YAAC'' ''FILE'' ''Log'' ''yaac.log''],
       timers = [], printed = [], thread_started = False\<rparr>))
   = [\<lparr>status = \<lparr>name = ''YAAC'', protocol = ''FILE'', host = ''Log'', port = ''yaac.log'',
        connected = True\<rparr>, led = Green\<rparr>]"
  using forced_update_after_start [of
      "\<lparr>status_indicators = [StatusIndicator_init ''YAAC'' ''FILE'' ''Log'' ''yaac.log''],
        timers = [], printed = [], thread_started = False\<rparr>"]
  by (simp add: start_monitor_def update_status_def update_one_def check_status_def
      check_connection_def update_led_def StatusIndicator_init_def ConnectionStatus_init_def)

subsection \<open>Cancellation of the monitor thread\<close>

lemma call_running [simp]: "running (call ev f n s) = running s"
  by (simp add: call_def split: prod.splits option.splits)

lemma step_running [simp]: "running (step ops s) = running s"
  by (simp add: step_def split: pc.splits)

lemma act_stopped: "\<not> running s \<Longrightarrow> \<not> running (act ops a s)"
  by (cases a) (simp_all add: stop_def)

lemma call_begun [simp]: "ev \<noteq> Begin \<Longrightarrow> iterations_begun (call ev f n s) = iterations_begun s"
  by (simp add: call_def iterations_begun_def split: prod.splits option.splits)

lemma step_begun_stopped: "\<not> running s \<Longrightarrow> iterations_begun (step ops s) = iterations_begun s"
  by (cases "at s") (simp_all add: step_def, simp_all add: iterations_begun_def)

lemma act_begun_stopped: "\<not> running s \<Longrightarrow> iterations_begun (act ops a s) = iterations_begun s"
  by (cases a) (simp_all add: step_begun_stopped, simp_all add: iterations_begun_def stop_def)

lemma exec_begun_stopped:
  "\<not> running s \<Longrightarrow> iterations_begun (exec ops as s) = iterations_begun s"
proof (induction as arbitrary: s)
  case Nil
  then show ?case by simp
next
  case (Cons a as)
  have "iterations_begun (exec ops as (act ops a s)) = iterations_begun (act ops a s)"
    using Cons.prems by (intro Cons.IH act_stopped)
  then show ?case using Cons.prems by (simp add: act_begun_stopped)
qed

lemma step_flag_unread:
  "at s \<noteq> Head \<Longrightarrow> step ops (s\<lparr>running := b\<rparr>) = (step ops s)\<lparr>running := b\<rparr>"
  by (cases "at s") (simp_all add: step_def call_def split: prod.splits option.splits)

lemma step_exited:
  "at (step ops s) = Exited \<Longrightarrow> at s = Exited \<or> (at s = Head \<and> \<not> running s)"
  by (cases "at s") (simp_all add: step_def call_def split: prod.splits option.splits if_splits)

lemma step_head: "at s = Head \<Longrightarrow> at (step ops s) = (if running s then MsgTest else Exited)"
  by (simp add: step_def)

subsection \<open>One iteration of the monitor thread\<close>

lemma steps_add: "steps ops (m + n) s = steps ops m (steps ops n s)"
  by (simp add: steps_def funpow_add)

lemma steps_3: "steps ops 3 s = step ops (step ops (step ops s))"
  by (simp add: steps_def numeral_3_eq_3)

lemma msg_round:
  assumes "consumes_one ops" "at s = MsgTest" "msgQueue (world s) \<noteq> []"
  shows "at (steps ops 3 s) = MsgTest
         \<and> msgQueue (world (steps ops 3 s)) = tl (msgQueue (world s))
         \<and> cmdQueue (world (steps ops 3 s)) = cmdQueue (world s)
         \<and> running (steps ops 3 s) = running s
         \<and> trace (steps ops 3 s) = trace s @ [ParseJson, ResetVals]"
proof -
  let ?w = "world s"
  obtain w1 where p: "parse_json ops ?w = (None, w1)"
    and q1: "msgQueue w1 = tl (msgQueue ?w)" "cmdQueue w1 = cmdQueue ?w"
    using assms(1,3) unfolding consumes_one_def by (metis prod.collapse)
  obtain w2 where r: "reset_vals ops w1 = (None, w2)"
    and q2: "msgQueue w2 = msgQueue w1" "cmdQueue w2 = cmdQueue w1"
    using assms(1) unfolding consumes_one_def by (metis prod.collapse)
  have 1: "step ops s = s\<lparr>at := MsgParse\<rparr>"
    using assms(2,3) by (simp add: step_def)
  have 2: "step ops (s\<lparr>at := MsgParse\<rparr>)
           = s\<lparr>at := MsgReset, world := w1, trace := trace s @ [ParseJson]\<rparr>"
    using p by (simp add: step_def call_def)
  have 3: "step ops (s\<lparr>at := MsgReset, world := w1, trace := trace s @ [ParseJson]\<rparr>)
           = s\<lparr>at := MsgTest, world := w2, trace := trace s @ [ParseJson, ResetVals]\<rparr>"
    using r by (simp add: step_def call_def)
  show ?thesis
    by (simp add: steps_3 1 2 3 q1 q2)
qed

lemma drain_msgs:
  assumes "consumes_one ops"
  shows "at s = MsgTest \<Longrightarrow> length (msgQueue (world s)) = n \<Longrightarrow>
         at (steps ops (3 * n) s) = MsgTest
         \<and> msgQueue (world (steps ops (3 * n) s)) = []
         \<and> cmdQueue (world (steps ops (3 * n) s)) = cmdQueue (world s)
         \<and> running (steps ops (3 * n) s) = running s
         \<and> trace (steps ops (3 * n) s) = trace s @ concat (replicate n [ParseJson, ResetVals])"
proof (induction n arbitrary: s)
  case 0
  then show ?case by (simp add: steps_def)
next
  case (Suc n)
  then have ne: "msgQueue (world s) \<noteq> []" by auto
  note r = msg_round [OF assms Suc.prems(1) ne]
  have len: "length (msgQueue (world (steps ops 3 s))) = n"
    using r Suc.prems(2) by simp
  have eq: "steps ops (3 * Suc n) s = steps ops (3 * n) (steps ops 3 s)"
    using steps_add [of ops "3 * n" 3 s] by (simp add: add.commute)
  show ?case
    unfolding eq using Suc.IH [of "steps ops 3 s"] r len by simp
qed







lemma strtobool_false: "strtobool ''false'' = Inr False"
  by (simp add: strtobool_def lower_def lower_char_def code_def)








subsection \<open>Stopping the thread\<close>

lemma stop_not_running: "\<not> running (stop s)"
  by (simp add: stop_def)

lemma stop_begun: "iterations_begun (stop s) = iterations_begun s"
  by (simp add: stop_def iterations_begun_def)

lemma exec_append: "exec ops (as @ bs) s = exec ops bs (exec ops as s)"
  by (induction as arbitrary: s) simp_all

lemma exec_after_stop:
  "iterations_begun (exec ops (as @ Stop # bs) s) = iterations_begun (exec ops as s)"
  by (simp add: exec_append exec_begun_stopped stop_not_running stop_begun)

lemma step_stop_commute: "at s \<noteq> Head \<Longrightarrow> step ops (stop s) = stop (step ops s)"
  unfolding stop_def by (rule step_flag_unread)

lemma stop_fields: "at (stop s) = at s \<and> world (stop s) = world s \<and> trace (stop s) = trace s"
  by (simp add: stop_def)

lemma step_head_stopped: "at s = Head \<Longrightarrow> step ops (stop s) = (stop s)\<lparr>at := Exited\<rparr>"
  by (simp add: step_def stop_def)

text \<open>
  C7. \<open>stop()\<close> sets \<open>running\<close> to \<open>False\<close> and does nothing else. In every schedule of thread
  steps, \<open>stop\<close> calls and queue insertions, the thread begins no outer iteration after a
  \<open>stop\<close>. The flag is read at the head of the outer loop only: at every other control
  point a step after \<open>stop\<close> is the step that would have been taken without it, so a drain
  of the message queue that is under way when \<open>stop\<close> is called runs until the queue is
  empty (for methods that take one item per call). At the head of the loop the stopped
  thread leaves \<open>run\<close>, and \<open>run\<close> is left in no other way.
\<close>

theorem stop_flag_checked_once_per_iteration:
  "\<not> running (stop s)
   \<and> at (stop s) = at s \<and> world (stop s) = world s \<and> trace (stop s) = trace s
   \<and> iterations_begun (exec ops (as @ Stop # bs) s) = iterations_begun (exec ops as s)
   \<and> (at s \<noteq> Head \<longrightarrow> step ops (stop s) = stop (step ops s))
   \<and> (consumes_one ops \<and> at s = MsgTest \<longrightarrow>
        msgQueue (world (steps ops (3 * length (msgQueue (world s))) (stop s))) = []
        \<and> trace (steps ops (3 * length (msgQueue (world s))) (stop s))
            = trace s @ concat (replicate (length (msgQueue (world s))) [ParseJson, ResetVals]))
   \<and> (at s = Head \<longrightarrow> step ops (stop s) = (stop s)\<lparr>at := Exited\<rparr>)
   \<and> (at s = Head \<and> running s \<longrightarrow> at (step ops s) = MsgTest)
   \<and> (at (step ops s) = Exited \<longrightarrow> at s = Exited \<or> (at s = Head \<and> \<not> running s))"
proof (intro conjI impI)
  show "\<not> running (stop s)" by (rule stop_not_running)
  show "at (stop s) = at s" "world (stop s) = world s" "trace (stop s) = trace s"
    by (simp_all add: stop_fields)
  show "iterations_begun (exec ops (as @ Stop # bs) s) = iterations_begun (exec ops as s)"
    by (rule exec_after_stop)
next
  assume "at s \<noteq> Head"
  then show "step ops (stop s) = stop (step ops s)" by (rule step_stop_commute)
next
  assume a: "consumes_one ops \<and> at s = MsgTest"
  then have c: "consumes_one ops" and m: "at (stop s) = MsgTest"
    and l: "length (msgQueue (world (stop s))) = length (msgQueue (world s))"
    by (simp_all add: stop_fields)
  from drain_msgs [OF c m l]
  show "msgQueue (world (steps ops (3 * length (msgQueue (world s))) (stop s))) = []"
    "trace (steps ops (3 * length (msgQueue (world s))) (stop s))
       = trace s @ concat (replicate (length (msgQueue (world s))) [ParseJson, ResetVals])"
    by (simp_all add: stop_fields)
next
  assume "at s = Head"
  then show "step ops (stop s) = (stop s)\<lparr>at := Exited\<rparr>" by (rule step_head_stopped)
next
  assume "at s = Head \<and> running s"
  then show "at (step ops s) = MsgTest" by (simp add: step_head)
next
  assume "at (step ops s) = Exited"
  then show "at s = Exited \<or> (at s = Head \<and> \<not> running s)" by (rule step_exited)
qed

theorem stop_flag_checked_once_per_iteration_witness:
  "exec pop_ops [ThreadStep, Stop, ThreadStep, ThreadStep, ThreadStep, ThreadStep, ThreadStep,
       ThreadStep, ThreadStep, ThreadStep]
     \<lparr>at = MsgParse, running = True,
      world = \<lparr>msgQueue = [1, 2 :: nat], cmdQueue = [], monitor = ()\<rparr>, trace = [Begin]\<rparr>
   = \<lparr>at = Exited, running = False,
      world = \<lparr>msgQueue = [], cmdQueue = [], monitor = ()\<rparr>,
      trace = [Begin, ParseJson, ResetVals, ParseJson, ResetVals, Slept 500]\<rparr>
   \<and> iterations_begun (exec pop_ops ([ThreadStep] @ Stop # [ThreadStep, ThreadStep, ThreadStep,
       ThreadStep, ThreadStep, ThreadStep, ThreadStep, ThreadStep])
     \<lparr>at = MsgParse, running = True,
      world = \<lparr>msgQueue = [1, 2 :: nat], cmdQueue = [], monitor = ()\<rparr>, trace = [Begin]\<rparr>) = 1
   \<and> msgQueue (world (steps pop_ops (3 * 2) (stop
     \<lparr>at = MsgTest, running = True,
      world = \<lparr>msgQueue = [1, 2 :: nat], cmdQueue = [], monitor = ()\<rparr>, trace = [Begin]\<rparr>))) = []"
proof -
  have c: "consumes_one (pop_ops :: (nat, unit) monitor_ops)"
    by (simp add: consumes_one_def pop_ops_def)
  show ?thesis
    using stop_flag_checked_once_per_iteration [of
        "\<lparr>at = MsgParse, running = True,
          world = \<lparr>msgQueue = [1, 2 :: nat], cmdQueue = [], monitor = ()\<rparr>, trace = [Begin]\<rparr>"
        pop_ops "[ThreadStep]"
        "[ThreadStep, ThreadStep, ThreadStep, ThreadStep, ThreadStep, ThreadStep, ThreadStep,
          ThreadStep]"]
      stop_flag_checked_once_per_iteration [of
        "\<lparr>at = MsgTest, running = True,
          world = \<lparr>msgQueue = [1, 2 :: nat], cmdQueue = [], monitor = ()\<rparr>, trace = [Begin]\<rparr>"
        pop_ops "[]" "[]"]
      c
    by (simp add: iterations_begun_def step_def call_def pop_ops_def stop_def)
qed

subsection \<open>Reading the configuration\<close>

lemma interpolate_some_no_KeyError:
  "interpolate_some m opt sec raw d rest \<noteq> Inl (KeyError k)"
proof (induction m opt sec raw d rest rule: interpolate_some.induct)
  case (1 m opt sec rawval depth rest)
  show ?case
  proof (cases "depth > MAX_INTERPOLATION_DEPTH")
    case True
    then show ?thesis by (subst interpolate_some.simps) simp
  next
    case d: False
    show ?thesis
    proof (cases rest)
      case Nil
      then show ?thesis using d by (subst interpolate_some.simps) simp
    next
      case (Cons c r)
      show ?thesis
      proof (cases "c \<noteq> CHR 0x25")
        case True
        with "1.IH"(1) [OF d Cons True] show ?thesis
          using d Cons by (subst interpolate_some.simps) (auto split: sum.splits)
      next
        case c: False
        show ?thesis
        proof (cases "take 1 r = [CHR 0x25]")
          case True
          with "1.IH"(2) [OF d Cons c True] show ?thesis
            using d Cons c by (subst interpolate_some.simps) (auto split: sum.splits)
        next
          case p: False
          show ?thesis
          proof (cases "take 1 r = [CHR 0x28]")
            case False
            then show ?thesis
              using d Cons c p by (subst interpolate_some.simps) simp
          next
            case b: True
            show ?thesis
            proof (cases "match_KEYCRE rest")
              case None
              then show ?thesis
                using d Cons c p b by (subst interpolate_some.simps) simp
            next
              case (Some kr)
              obtain key rest' where kr: "kr = (key, rest')" by (cases kr)
              show ?thesis
              proof (cases "m (lower key)")
                case None
                then show ?thesis
                  using d Cons c p b Some kr by (subst interpolate_some.simps) simp
              next
                case v: (Some v)
                have mk: "match_KEYCRE (c # r) = Some (key, rest')"
                  using Some kr Cons by simp
                note ih3 = "1.IH"(3) [OF d Cons c p b Some kr [symmetric] v]
                note ih4 = "1.IH"(4) [OF d Cons c p b Some kr [symmetric] v]
                show ?thesis
                proof (cases "CHR 0x25 \<in> set v")
                  case True
                  show ?thesis
                    apply (subst interpolate_some.simps)
                    using d Cons c p b mk v True ih3 [OF True] ih4
                    apply (auto split: sum.splits)
                    done
                next
                  case False
                  show ?thesis
                    apply (subst interpolate_some.simps)
                    using d Cons c p b mk v False ih4
                    apply (auto split: sum.splits)
                    done
                qed
              qed
            qed
          qed
        qed
      qed
    qed
  qed
qed


lemma config_get_no_KeyError: "config_get cfg s opt fb \<noteq> Inl (KeyError k)"
  by (auto simp: config_get_def before_get_def interpolate_some_no_KeyError
      split: option.splits)

lemma strtobool_no_KeyError: "strtobool v \<noteq> Inl (KeyError k)"
  by (simp add: strtobool_def Let_def)

lemma section_get_missing:
  "sections cfg s = None \<Longrightarrow> s \<noteq> DEFAULTSECT \<Longrightarrow> section_get cfg s opt fb = Inl (KeyError s)"
  by (simp add: section_get_def getitem_def bind_exn_def)

lemma section_get_KeyError:
  "section_get cfg s opt fb = Inl (KeyError k) \<Longrightarrow> k = s \<and> sections cfg s = None"
  by (auto simp: section_get_def getitem_def bind_exn_def config_get_no_KeyError split: if_splits)

lemma section_get_fallback:
  "sections cfg s = Some d \<Longrightarrow> \<not> has_option cfg s opt \<Longrightarrow> section_get cfg s opt fb = Inr fb"
  by (auto simp: section_get_def getitem_def bind_exn_def config_get_def has_option_def
      unify_values_def split: option.splits)


subsection \<open>Missing sections in the main window\<close>


lemma names_not_default:
  "''JS8Call'' \<noteq> DEFAULTSECT" "''N1MM'' \<noteq> DEFAULTSECT" "''GRIDTRACKER'' \<noteq> DEFAULTSECT"
  "''GEOSERVER'' \<noteq> DEFAULTSECT" "''YAAC'' \<noteq> DEFAULTSECT" "''ADIF'' \<noteq> DEFAULTSECT"
  "''TCP'' \<noteq> DEFAULTSECT"
  by (simp_all add: DEFAULTSECT_def)

lemma tcp_guarded: "sections cfg ''TCP'' = None \<Longrightarrow> \<not> tcp_enabled cfg"
  unfolding tcp_enabled_def by (simp add: contains_def names_not_default)

lemma tcp_enabled_present: "tcp_enabled cfg \<Longrightarrow> sections cfg ''TCP'' \<noteq> None"
  using tcp_guarded by blast

lemma udp_client_missing:
  "sections cfg s = None \<Longrightarrow> s \<noteq> DEFAULTSECT \<Longrightarrow> udp_client cfg s l p = Inl (KeyError s)"
  by (simp add: udp_client_def section_get_missing bind_exn_def)

lemma file_client_missing:
  "sections cfg s = None \<Longrightarrow> s \<noteq> DEFAULTSECT \<Longrightarrow> file_client cfg s l p = Inl (KeyError s)"
  by (simp add: file_client_def section_get_missing bind_exn_def)

lemma geoserver_client_missing:
  "sections cfg ''GEOSERVER'' = None \<Longrightarrow> geoserver_client cfg = Inl (KeyError ''GEOSERVER'')"
  by (simp add: geoserver_client_def section_get_missing names_not_default bind_exn_def)

lemma source_indicator_missing:
  "\<not> tcp_enabled cfg \<Longrightarrow> sections cfg ''JS8Call'' = None \<Longrightarrow>
   source_indicator cfg = Inl (KeyError ''JS8Call'')"
  by (simp add: source_indicator_def section_get_missing names_not_default bind_exn_def)

lemma udp_client_KeyError:
  "udp_client cfg s l p = Inl (KeyError k) \<Longrightarrow> k = s \<and> sections cfg s = None"
  by (auto simp: udp_client_def bind_exn_def strtobool_no_KeyError
      split: sum.splits if_splits dest: section_get_KeyError)

lemma file_client_KeyError:
  "file_client cfg s l p = Inl (KeyError k) \<Longrightarrow> k = s \<and> sections cfg s = None"
  by (auto simp: file_client_def bind_exn_def strtobool_no_KeyError
      split: sum.splits if_splits dest: section_get_KeyError)

lemma geoserver_client_KeyError:
  "geoserver_client cfg = Inl (KeyError k) \<Longrightarrow> k = ''GEOSERVER'' \<and> sections cfg ''GEOSERVER'' = None"
  by (auto simp: geoserver_client_def bind_exn_def strtobool_no_KeyError
      split: sum.splits if_splits dest: section_get_KeyError)

lemma source_indicator_KeyError:
  "source_indicator cfg = Inl (KeyError k) \<Longrightarrow>
   \<not> tcp_enabled cfg \<and> k = ''JS8Call'' \<and> sections cfg ''JS8Call'' = None"
  by (auto simp: source_indicator_def bind_exn_def
      split: sum.splits if_splits dest: section_get_KeyError tcp_enabled_present)

lemma load_config_missing:
  assumes "s \<in> set (required_sections cfg)" "sections cfg s = None"
  shows "isl (load_config cfg g)"
proof -
  from assms consider
      "\<not> tcp_enabled cfg" "sections cfg ''JS8Call'' = None"
    | "sections cfg ''N1MM'' = None" | "sections cfg ''GRIDTRACKER'' = None"
    | "sections cfg ''GEOSERVER'' = None" | "sections cfg ''YAAC'' = None"
    | "sections cfg ''ADIF'' = None"
    by (auto simp: required_sections_def split: if_splits)
  then show ?thesis
  proof cases
    case 1
    then show ?thesis
      by (simp add: load_config_def source_indicator_missing bind_exn_def)
  next
    case 2
    then show ?thesis
      by (simp add: load_config_def udp_client_missing names_not_default bind_exn_def split: sum.splits)
  next
    case 3
    then show ?thesis
      by (simp add: load_config_def udp_client_missing names_not_default bind_exn_def split: sum.splits)
  next
    case 4
    then show ?thesis
      by (simp add: load_config_def geoserver_client_missing bind_exn_def split: sum.splits)
  next
    case 5
    then show ?thesis
      by (simp add: load_config_def file_client_missing names_not_default bind_exn_def split: sum.splits)
  next
    case 6
    then show ?thesis
      by (simp add: load_config_def file_client_missing names_not_default bind_exn_def split: sum.splits)
  qed
qed

lemma load_config_KeyError:
  assumes "load_config cfg g = Inl (KeyError k)"
  shows "k \<in> set (required_sections cfg) \<and> sections cfg k = None"
  using assms
  by (auto simp: load_config_def bind_exn_def required_sections_def split: sum.splits
      dest!: source_indicator_KeyError udp_client_KeyError geoserver_client_KeyError
        file_client_KeyError)


lemma interpolate_some_plain:
  "depth \<le> MAX_INTERPOLATION_DEPTH \<Longrightarrow> CHR 0x25 \<notin> set rest \<Longrightarrow>
   interpolate_some m opt sec raw depth rest = Inr rest"
proof (induction rest)
  case Nil
  then show ?case by (subst interpolate_some.simps) simp
next
  case (Cons c r)
  then show ?case by (subst interpolate_some.simps) auto
qed

lemma before_get_plain: "CHR 0x25 \<notin> set v \<Longrightarrow> before_get m sec opt v = Inr v"
  by (simp add: before_get_def interpolate_some_plain MAX_INTERPOLATION_DEPTH_def)

lemma strtobool_maybe:
  "strtobool ''maybe'' = Inl (ValueError (''invalid truth value '' @ [CHR 0x27] @ ''maybe'' @ [CHR 0x27]))"
  by (simp add: strtobool_def lower_def lower_char_def code_def repr_def repr_char_def printable_def Let_def)

text \<open>
  C8 (as stated, refuted). The configuration \<open>bad_flag_config\<close> has no section \<open>ADIF\<close>, and
  \<open>load_config\<close> raises a \<open>ValueError\<close>, not a \<open>KeyError\<close>: the flag of \<open>N1MM\<close> is read first.
\<close>

theorem load_config_bad_flag_before_missing_section:
  "sections bad_flag_config ''ADIF'' = None
   \<and> load_config bad_flag_config new_window
     = Inl (ValueError (''invalid truth value '' @ [CHR 0x27] @ ''maybe'' @ [CHR 0x27]))"
proof -
  have t: "\<not> tcp_enabled bad_flag_config"
    by (rule tcp_guarded) (simp add: bad_flag_config_def)
  have e: "section_get bad_flag_config ''N1MM'' ''enabled'' ''false'' = Inr ''maybe''"
    by (simp add: section_get_def getitem_def config_get_def unify_values_def bind_exn_def
        bad_flag_config_def DEFAULTSECT_def lower_def lower_char_def code_def before_get_plain)
  have s: "source_indicator bad_flag_config
      = Inr (StatusIndicator_init ''JS8Call (UDP)'' ''UDP'' ''127.0.0.1'' ''2242'')"
    using t by (simp add: source_indicator_def section_get_def getitem_def config_get_def
        unify_values_def bind_exn_def bad_flag_config_def DEFAULTSECT_def)
  have u: "udp_client bad_flag_config ''N1MM'' ''N1MM+'' ''12060''
      = Inl (ValueError (''invalid truth value '' @ [CHR 0x27] @ ''maybe'' @ [CHR 0x27]))"
    by (simp add: udp_client_def e strtobool_maybe bind_exn_def)
  show ?thesis
    by (simp add: load_config_def s u bind_exn_def) (simp add: bad_flag_config_def)
qed

lemma not_isl_Inr: "\<not> isl x \<Longrightarrow> \<exists>y. x = Inr y"
  by (cases x) simp_all

lemma load_config_N1MM_missing:
  assumes "sections cfg ''N1MM'' = None" "\<not> isl (source_indicator cfg)"
  shows "load_config cfg g = Inl (KeyError ''N1MM'')"
  using assms(2) [THEN not_isl_Inr]
  by (auto simp: load_config_def bind_exn_def udp_client_missing [OF assms(1)] names_not_default)

lemma load_config_GRIDTRACKER_missing:
  assumes "sections cfg ''GRIDTRACKER'' = None" "\<not> isl (source_indicator cfg)"
    "\<not> isl (udp_client cfg ''N1MM'' ''N1MM+'' ''12060'')"
  shows "load_config cfg g = Inl (KeyError ''GRIDTRACKER'')"
  using assms(2,3) [THEN not_isl_Inr]
  by (auto simp: load_config_def bind_exn_def udp_client_missing [OF assms(1)] names_not_default)

lemma load_config_GEOSERVER_missing:
  assumes "sections cfg ''GEOSERVER'' = None" "\<not> isl (source_indicator cfg)"
    "\<not> isl (udp_client cfg ''N1MM'' ''N1MM+'' ''12060'')"
    "\<not> isl (udp_client cfg ''GRIDTRACKER'' ''GridTracker'' ''2237'')"
  shows "load_config cfg g = Inl (KeyError ''GEOSERVER'')"
  using assms(2,3,4) [THEN not_isl_Inr]
  by (auto simp: load_config_def bind_exn_def geoserver_client_missing [OF assms(1)])

lemma load_config_YAAC_missing:
  assumes "sections cfg ''YAAC'' = None" "\<not> isl (source_indicator cfg)"
    "\<not> isl (udp_client cfg ''N1MM'' ''N1MM+'' ''12060'')"
    "\<not> isl (udp_client cfg ''GRIDTRACKER'' ''GridTracker'' ''2237'')"
    "\<not> isl (geoserver_client cfg)"
  shows "load_config cfg g = Inl (KeyError ''YAAC'')"
  using assms(2,3,4,5) [THEN not_isl_Inr]
  by (auto simp: load_config_def bind_exn_def file_client_missing [OF assms(1)] names_not_default)

lemma load_config_ADIF_missing:
  assumes "sections cfg ''ADIF'' = None" "\<not> isl (source_indicator cfg)"
    "\<not> isl (udp_client cfg ''N1MM'' ''N1MM+'' ''12060'')"
    "\<not> isl (udp_client cfg ''GRIDTRACKER'' ''GridTracker'' ''2237'')"
    "\<not> isl (geoserver_client cfg)" "\<not> isl (file_client cfg ''YAAC'' ''YAAC'' ''yaac.log'')"
  shows "load_config cfg g = Inl (KeyError ''ADIF'')"
  using assms(2,3,4,5,6) [THEN not_isl_Inr]
  by (auto simp: load_config_def bind_exn_def file_client_missing [OF assms(1)] names_not_default)

text \<open>
  C8 (amended). Only the \<open>TCP\<close> section is tested for before it is used: without it the TCP
  source is simply off. When one of the sections \<open>JS8Call\<close> (TCP being off), \<open>N1MM\<close>,
  \<open>GRIDTRACKER\<close>, \<open>GEOSERVER\<close>, \<open>YAAC\<close>, \<open>ADIF\<close> is missing, \<open>load_config\<close> raises the \<open>KeyError\<close>
  of that section instead of applying defaults, unless one of the blocks that it runs
  before it reaches the section raises first; in every case it raises, and every
  \<open>KeyError\<close> it raises names such a missing section. \<open>config[s].get(opt, fb)\<close> raises
  \<open>KeyError\<close> for a missing section and gives the fallback when the section exists and the
  option does not.
\<close>

theorem load_config_unguarded_sections:
  "(sections cfg ''TCP'' = None \<longrightarrow> \<not> tcp_enabled cfg)
   \<and> (\<not> tcp_enabled cfg \<and> sections cfg ''JS8Call'' = None \<longrightarrow>
        load_config cfg g = Inl (KeyError ''JS8Call''))
   \<and> (sections cfg ''N1MM'' = None \<and> \<not> isl (source_indicator cfg) \<longrightarrow>
        load_config cfg g = Inl (KeyError ''N1MM''))
   \<and> (sections cfg ''GRIDTRACKER'' = None \<and> \<not> isl (source_indicator cfg)
        \<and> \<not> isl (udp_client cfg ''N1MM'' ''N1MM+'' ''12060'') \<longrightarrow>
        load_config cfg g = Inl (KeyError ''GRIDTRACKER''))
   \<and> (sections cfg ''GEOSERVER'' = None \<and> \<not> isl (source_indicator cfg)
        \<and> \<not> isl (udp_client cfg ''N1MM'' ''N1MM+'' ''12060'')
        \<and> \<not> isl (udp_client cfg ''GRIDTRACKER'' ''GridTracker'' ''2237'') \<longrightarrow>
        load_config cfg g = Inl (KeyError ''GEOSERVER''))
   \<and> (sections cfg ''YAAC'' = None \<and> \<not> isl (source_indicator cfg)
        \<and> \<not> isl (udp_client cfg ''N1MM'' ''N1MM+'' ''12060'')
        \<and> \<not> isl (udp_client cfg ''GRIDTRACKER'' ''GridTracker'' ''2237'')
        \<and> \<not> isl (geoserver_client cfg) \<longrightarrow>
        load_config cfg g = Inl (KeyError ''YAAC''))
   \<and> (sections cfg ''ADIF'' = None \<and> \<not> isl (source_indicator cfg)
        \<and> \<not> isl (udp_client cfg ''N1MM'' ''N1MM+'' ''12060'')
        \<and> \<not> isl (udp_client cfg ''GRIDTRACKER'' ''GridTracker'' ''2237'')
        \<and> \<not> isl (geoserver_client cfg)
        \<and> \<not> isl (file_client cfg ''YAAC'' ''YAAC'' ''yaac.log'') \<longrightarrow>
        load_config cfg g = Inl (KeyError ''ADIF''))
   \<and> (s \<in> set (required_sections cfg) \<and> sections cfg s = None \<longrightarrow> isl (load_config cfg g))
   \<and> (load_config cfg g = Inl (KeyError k) \<longrightarrow>
        k \<in> set (required_sections cfg) \<and> sections cfg k = None)
   \<and> (sections cfg s = None \<and> s \<noteq> DEFAULTSECT \<longrightarrow> section_get cfg s opt fb = Inl (KeyError s))
   \<and> (sections cfg s = Some d \<and> \<not> has_option cfg s opt \<longrightarrow> section_get cfg s opt fb = Inr fb)"
proof (intro conjI impI)
  assume "s \<in> set (required_sections cfg) \<and> sections cfg s = None"
  then show "isl (load_config cfg g)" using load_config_missing by blast
next
  assume a: "load_config cfg g = Inl (KeyError k)"
  show "k \<in> set (required_sections cfg)" using load_config_KeyError [OF a] by simp
  show "sections cfg k = None" using load_config_KeyError [OF a] by simp
next
  assume "\<not> tcp_enabled cfg \<and> sections cfg ''JS8Call'' = None"
  then show "load_config cfg g = Inl (KeyError ''JS8Call'')"
    by (simp add: load_config_def source_indicator_missing bind_exn_def)
next
  assume "sections cfg ''TCP'' = None"
  then show "\<not> tcp_enabled cfg" by (rule tcp_guarded)
next
  assume "sections cfg s = None \<and> s \<noteq> DEFAULTSECT"
  then show "section_get cfg s opt fb = Inl (KeyError s)" by (simp add: section_get_missing)
next
  assume "sections cfg s = Some d \<and> \<not> has_option cfg s opt"
  then show "section_get cfg s opt fb = Inr fb" by (simp add: section_get_fallback)
next
  assume "sections cfg ''N1MM'' = None \<and> \<not> isl (source_indicator cfg)"
  then show "load_config cfg g = Inl (KeyError ''N1MM'')"
    by (simp add: load_config_N1MM_missing)
next
  assume "sections cfg ''GRIDTRACKER'' = None \<and> \<not> isl (source_indicator cfg)
        \<and> \<not> isl (udp_client cfg ''N1MM'' ''N1MM+'' ''12060'')"
  then show "load_config cfg g = Inl (KeyError ''GRIDTRACKER'')"
    by (simp add: load_config_GRIDTRACKER_missing)
next
  assume "sections cfg ''GEOSERVER'' = None \<and> \<not> isl (source_indicator cfg)
        \<and> \<not> isl (udp_client cfg ''N1MM'' ''N1MM+'' ''12060'')
        \<and> \<not> isl (udp_client cfg ''GRIDTRACKER'' ''GridTracker'' ''2237'')"
  then show "load_config cfg g = Inl (KeyError ''GEOSERVER'')"
    by (simp add: load_config_GEOSERVER_missing)
next
  assume "sections cfg ''YAAC'' = None \<and> \<not> isl (source_indicator cfg)
        \<and> \<not> isl (udp_client cfg ''N1MM'' ''N1MM+'' ''12060'')
        \<and> \<not> isl (udp_client cfg ''GRIDTRACKER'' ''GridTracker'' ''2237'')
        \<and> \<not> isl (geoserver_client cfg)"
  then show "load_config cfg g = Inl (KeyError ''YAAC'')"
    by (simp add: load_config_YAAC_missing)
next
  assume "sections cfg ''ADIF'' = None \<and> \<not> isl (source_indicator cfg)
        \<and> \<not> isl (udp_client cfg ''N1MM'' ''N1MM+'' ''12060'')
        \<and> \<not> isl (udp_client cfg ''GRIDTRACKER'' ''GridTracker'' ''2237'')
        \<and> \<not> isl (geoserver_client cfg)
        \<and> \<not> isl (file_client cfg ''YAAC'' ''YAAC'' ''yaac.log'')"
  then show "load_config cfg g = Inl (KeyError ''ADIF'')"
    by (simp add: load_config_ADIF_missing)
qed

lemma no_adif_blocks:
  "\<not> isl (source_indicator no_adif_config)"
  "\<not> isl (udp_client no_adif_config ''N1MM'' ''N1MM+'' ''12060'')"
  "\<not> isl (udp_client no_adif_config ''GRIDTRACKER'' ''GridTracker'' ''2237'')"
  "\<not> isl (geoserver_client no_adif_config)"
  "\<not> isl (file_client no_adif_config ''YAAC'' ''YAAC'' ''yaac.log'')"
  "sections no_adif_config ''ADIF'' = None"
proof -
  have t: "\<not> tcp_enabled no_adif_config"
    by (rule tcp_guarded) (simp add: no_adif_config_def)
  show "\<not> isl (source_indicator no_adif_config)"
    using t by (simp add: source_indicator_def section_get_def getitem_def config_get_def
        unify_values_def bind_exn_def no_adif_config_def DEFAULTSECT_def)
  show "\<not> isl (udp_client no_adif_config ''N1MM'' ''N1MM+'' ''12060'')"
    "\<not> isl (udp_client no_adif_config ''GRIDTRACKER'' ''GridTracker'' ''2237'')"
    "\<not> isl (geoserver_client no_adif_config)"
    "\<not> isl (file_client no_adif_config ''YAAC'' ''YAAC'' ''yaac.log'')"
    by (simp_all add: udp_client_def geoserver_client_def file_client_def section_get_def
        getitem_def config_get_def unify_values_def bind_exn_def strtobool_false
        no_adif_config_def DEFAULTSECT_def)
  show "sections no_adif_config ''ADIF'' = None"
    by (simp add: no_adif_config_def)
qed

theorem load_config_unguarded_sections_witness:
  "load_config no_config new_window = Inl (KeyError ''JS8Call'')
   \<and> load_config no_adif_config new_window = Inl (KeyError ''ADIF'')
   \<and> \<not> tcp_enabled no_config
   \<and> isl (load_config bad_flag_config new_window)
   \<and> section_get no_config ''N1MM'' ''port'' ''12060'' = Inl (KeyError ''N1MM'')
   \<and> section_get empty_sections ''N1MM'' ''port'' ''12060'' = Inr ''12060''"
proof -
  have a: "sections no_config ''TCP'' = None" "sections no_config ''JS8Call'' = None"
    "sections no_config ''N1MM'' = None" "''N1MM'' \<noteq> DEFAULTSECT"
    by (simp_all add: no_config_def DEFAULTSECT_def)
  have b: "''ADIF'' \<in> set (required_sections bad_flag_config)"
    "sections bad_flag_config ''ADIF'' = None"
    by (simp_all add: required_sections_def bad_flag_config_def)
  have c: "sections empty_sections ''N1MM'' = Some Map.empty"
    "\<not> has_option empty_sections ''N1MM'' ''port''"
    by (simp_all add: empty_sections_def has_option_def unify_values_def)
  show ?thesis
    using load_config_unguarded_sections [of no_config new_window "''N1MM''" "''JS8Call''" "''port''" "''12060''" Map.empty]
      load_config_unguarded_sections [of bad_flag_config new_window "''ADIF''" "''ADIF''" "''port''" "''12060''" Map.empty]
      load_config_unguarded_sections [of empty_sections new_window "''N1MM''" "''N1MM''" "''port''" "''12060''" Map.empty]
      load_config_unguarded_sections [of no_adif_config new_window "''N1MM''" "''N1MM''" "''port''" "''12060''" Map.empty]
      a b c no_adif_blocks
    by simp
qed

subsection \<open>Restore Defaults\<close>

text \<open>
  C9. Whatever the reply to its question, \<open>restore_defaults\<close> leaves the dialog (its parser
  object and every widget) as it is, and outside the dialog nothing but the list of
  message boxes shown changes: the file and its writes are untouched. One box is shown
  for the reply No, two for Yes.
\<close>

theorem restore_defaults_changes_nothing:
  "fst (restore_defaults r dlg env) = dlg
   \<and> (snd (restore_defaults r dlg env))\<lparr>boxes := boxes env\<rparr> = env
   \<and> take (length (boxes env)) (boxes (snd (restore_defaults r dlg env))) = boxes env
   \<and> length (boxes (snd (restore_defaults r dlg env)))
       = length (boxes env) + (if r = Yes then 2 else 1)"
  by (simp add: restore_defaults_def)

theorem restore_defaults_changes_nothing_witness:
  "config_file (snd (restore_defaults Yes \<lparr>config = no_config, widgets = (\<lambda>n. Text []), result = Open\<rparr>
       \<lparr>config_file = Some no_config, writes = [], open_error = None, boxes = []\<rparr>)) = Some no_config
   \<and> writes (snd (restore_defaults Yes \<lparr>config = no_config, widgets = (\<lambda>n. Text []), result = Open\<rparr>
       \<lparr>config_file = Some no_config, writes = [], open_error = None, boxes = []\<rparr>)) = []
   \<and> length (boxes (snd (restore_defaults Yes \<lparr>config = no_config, widgets = (\<lambda>n. Text []), result = Open\<rparr>
       \<lparr>config_file = Some no_config, writes = [], open_error = None, boxes = []\<rparr>))) = 2"
  using restore_defaults_changes_nothing [of Yes
      "\<lparr>config = no_config, widgets = (\<lambda>n. Text []), result = Open\<rparr>"
      "\<lparr>config_file = Some no_config, writes = [], open_error = None, boxes = []\<rparr>"]
  by (simp add: restore_defaults_def)


subsection \<open>The form fields and the parser\<close>


lemma before_set_value: "before_set v = Inr v' \<Longrightarrow> v' = v"
  by (auto simp: before_set_def Let_def split: if_splits)

lemma config_set_cases:
  assumes "config_set cfg s opt v = Inr cfg'" "s \<noteq> []" "s \<noteq> DEFAULTSECT"
  obtains d where "sections cfg s = Some d"
    "cfg' = cfg\<lparr>sections := (sections cfg)(s \<mapsto> d(lower opt \<mapsto> v))\<rparr>"
  using assms
  by (auto simp: config_set_def bind_exn_def split: sum.splits option.splits if_splits
      dest: before_set_value)

lemma config_set_stored_same:
  "config_set cfg s opt v = Inr cfg' \<Longrightarrow> s \<noteq> [] \<Longrightarrow> s \<noteq> DEFAULTSECT \<Longrightarrow>
   stored cfg' s opt = Some v"
  by (erule config_set_cases) (auto simp: stored_def)

lemma config_set_stored_other:
  "config_set cfg s opt v = Inr cfg' \<Longrightarrow> s \<noteq> [] \<Longrightarrow> s \<noteq> DEFAULTSECT \<Longrightarrow>
   s2 \<noteq> s \<or> lower opt2 \<noteq> lower opt \<Longrightarrow> stored cfg' s2 opt2 = stored cfg s2 opt2"
  by (erule config_set_cases) (auto simp: stored_def)

lemma config_set_defaults:
  "config_set cfg s opt v = Inr cfg' \<Longrightarrow> s \<noteq> [] \<Longrightarrow> s \<noteq> DEFAULTSECT \<Longrightarrow>
   defaults cfg' = defaults cfg"
  by (erule config_set_cases) auto

lemma config_set_dom:
  "config_set cfg s opt v = Inr cfg' \<Longrightarrow> s \<noteq> [] \<Longrightarrow> s \<noteq> DEFAULTSECT \<Longrightarrow>
   dom (sections cfg') = dom (sections cfg)"
  by (erule config_set_cases) auto

lemma set_fields_frame:
  "named fs \<Longrightarrow> set_fields cfg w fs = (r, cfg') \<Longrightarrow>
   defaults cfg' = defaults cfg \<and> dom (sections cfg') = dom (sections cfg)
   \<and> ((s, lower opt) \<notin> key ` set fs \<longrightarrow> stored cfg' s opt = stored cfg s opt)"
proof (induction fs arbitrary: cfg)
  case Nil
  then show ?case by simp
next
  case (Cons f fs)
  have n: "f_section f \<noteq> []" "f_section f \<noteq> DEFAULTSECT" "named fs"
    using Cons.prems(1) by (simp_all add: named_def)
  show ?case
  proof (cases "config_set cfg (f_section f) (f_option f) (render (w (f_widget f)))")
    case (Inl e)
    then show ?thesis using Cons.prems(2) by simp
  next
    case (Inr c)
    then have "set_fields c w fs = (r, cfg')" using Cons.prems(2) by simp
    from Cons.IH [OF n(3) this]
      config_set_defaults [OF Inr n(1,2)] config_set_dom [OF Inr n(1,2)]
      config_set_stored_other [OF Inr n(1,2), of s opt]
    show ?thesis by (auto simp: key_def)
  qed
qed

lemma set_fields_stored:
  "named fs \<Longrightarrow> distinct (map key fs) \<Longrightarrow> set_fields cfg w fs = (None, cfg') \<Longrightarrow>
   f \<in> set fs \<Longrightarrow> stored cfg' (f_section f) (f_option f) = Some (render (w (f_widget f)))"
proof (induction fs arbitrary: cfg)
  case Nil
  then show ?case by simp
next
  case (Cons g fs)
  have n: "f_section g \<noteq> []" "f_section g \<noteq> DEFAULTSECT" "named fs"
    using Cons.prems(1) by (simp_all add: named_def)
  show ?case
  proof (cases "config_set cfg (f_section g) (f_option g) (render (w (f_widget g)))")
    case (Inl e)
    then show ?thesis using Cons.prems(3) by simp
  next
    case (Inr c)
    then have sf: "set_fields c w fs = (None, cfg')" using Cons.prems(3) by simp
    show ?thesis
    proof (cases "f = g")
      case True
      have "key g \<notin> key ` set fs" using Cons.prems(2) by simp
      then have "(f_section g, lower (f_option g)) \<notin> key ` set fs" by (simp add: key_def)
      with set_fields_frame [OF n(3) sf, of "f_section g" "f_option g"]
      have "stored cfg' (f_section g) (f_option g) = stored c (f_section g) (f_option g)"
        by simp
      then show ?thesis using True config_set_stored_same [OF Inr n(1,2)] by simp
    next
      case False
      then have "f \<in> set fs" using Cons.prems(4) by simp
      from Cons.IH [OF n(3) _ sf this] Cons.prems(2) show ?thesis by simp
    qed
  qed
qed

lemma create_widgets_other:
  "create_widgets cfg fs w = Inr w' \<Longrightarrow> n \<notin> f_widget ` set fs \<Longrightarrow> w' n = w n"
  by (induction fs arbitrary: w) (auto simp: bind_exn_def split: sum.splits)

lemma create_widgets_field:
  "create_widgets cfg fs w = Inr w' \<Longrightarrow> distinct (map f_widget fs) \<Longrightarrow> f \<in> set fs \<Longrightarrow>
   load_field cfg f = Inr (w' (f_widget f))"
proof (induction fs arbitrary: w)
  case Nil
  then show ?case by simp
next
  case (Cons g fs)
  then obtain v where v: "load_field cfg g = Inr v"
    and c: "create_widgets cfg fs (w(f_widget g := v)) = Inr w'"
    by (auto simp: bind_exn_def split: sum.splits)
  show ?case
  proof (cases "f = g")
    case True
    have "f_widget g \<notin> f_widget ` set fs" using Cons.prems(2) by simp
    from create_widgets_other [OF c this] v True show ?thesis by simp
  next
    case False
    with Cons.prems(3) have "f \<in> set fs" by simp
    from Cons.IH [OF c _ this] Cons.prems(2) show ?thesis by simp
  qed
qed

lemma distinct_widgets: "distinct (map f_widget form_fields)"
  by (simp add: form_fields_def)

lemma form_fields_named: "named form_fields"
  by (simp add: named_def form_fields_def DEFAULTSECT_def)

lemma distinct_keys: "distinct (map key form_fields)"
  by (simp add: form_fields_def key_def lower_def lower_char_def code_def)


subsection \<open>Defaults of the form fields\<close>


lemma config_get_absent:
  "\<not> has_option cfg s opt \<Longrightarrow> config_get cfg s opt fb = Inr fb"
  by (auto simp: config_get_def has_option_def split: option.splits)

lemma not_has_option:
  "stored cfg s opt = None \<Longrightarrow> sections cfg s \<noteq> None \<longrightarrow> defaults cfg (lower opt) = None \<Longrightarrow>
   s \<noteq> DEFAULTSECT \<Longrightarrow> \<not> has_option cfg s opt"
  by (auto simp: has_option_def stored_def unify_values_def map_add_def split: option.splits)

lemma config_get_inherited:
  "sections cfg s = Some d \<Longrightarrow> d (lower opt) = None \<Longrightarrow> defaults cfg (lower opt) = Some v \<Longrightarrow>
   CHR 0x25 \<notin> set v \<Longrightarrow> config_get cfg s opt fb = Inr v"
  by (simp add: config_get_def unify_values_def map_add_def before_get_plain)

lemmas eval_defs = py_int_def strip_def is_space_def code_def literal_part_def digits_value_def
  is_digit_def digit_val_def strtobool_def lower_def lower_char_def str_int_def str_nat.simps
  setValue_def QLineEdit_def bind_exn_def Let_def char_of_def bit_Suc_0_iff

lemma fallbacks_well_formed:
  "\<forall>f \<in> set form_fields.
     (case f_kind f of
        LineEdit \<Rightarrow> True
      | CheckBox \<Rightarrow> strtobool (f_fallback f) = Inr (f_fallback f = ''true'')
      | SpinBox lo hi \<Rightarrow>
          (case py_int (f_fallback f) of
             Inl e \<Rightarrow> False
           | Inr n \<Rightarrow> lo \<le> n \<and> n \<le> hi \<and> str_int n = f_fallback f
                      \<and> setValue lo hi n = Inr (Value n)))"
  by (simp add: form_fields_def eval_defs)

lemma default_numbers_shown:
  "\<forall>f \<in> set form_fields. \<forall>n. (f_widget f, n) \<in> set default_numbers \<longrightarrow>
     (case f_kind f of LineEdit \<Rightarrow> Inr (QLineEdit (f_fallback f))
      | CheckBox \<Rightarrow> bind_exn (strtobool (f_fallback f)) (\<lambda>b. Inr (Checked b))
      | SpinBox lo hi \<Rightarrow> bind_exn (py_int (f_fallback f)) (setValue lo hi)) = Inr (Value n)"
  by (simp add: form_fields_def default_numbers_def eval_defs)

lemma field_default:
  assumes f: "f \<in> set form_fields" and h: "\<not> has_option cfg (f_section f) (f_option f)"
  shows "f_kind f = LineEdit \<Longrightarrow> load_field cfg f = Inr (Text (f_fallback f))"
    "f_kind f = CheckBox \<Longrightarrow> load_field cfg f = Inr (Checked (f_fallback f = ''true''))"
    "f_kind f = SpinBox lo hi \<Longrightarrow>
       \<exists>n. lo \<le> n \<and> n \<le> hi \<and> str_int n = f_fallback f \<and> load_field cfg f = Inr (Value n)"
    "(f_widget f, m) \<in> set default_numbers \<Longrightarrow> load_field cfg f = Inr (Value m)"
proof -
  have g: "config_get cfg (f_section f) (f_option f) (f_fallback f) = Inr (f_fallback f)"
    using h by (simp add: config_get_absent)
  from f fallbacks_well_formed
  have w: "case f_kind f of
        LineEdit \<Rightarrow> True
      | CheckBox \<Rightarrow> strtobool (f_fallback f) = Inr (f_fallback f = ''true'')
      | SpinBox lo hi \<Rightarrow>
          (case py_int (f_fallback f) of
             Inl e \<Rightarrow> False
           | Inr n \<Rightarrow> lo \<le> n \<and> n \<le> hi \<and> str_int n = f_fallback f
                      \<and> setValue lo hi n = Inr (Value n))"
    by blast
  show "f_kind f = LineEdit \<Longrightarrow> load_field cfg f = Inr (Text (f_fallback f))"
    using g by (simp add: load_field_def bind_exn_def QLineEdit_def)
  show "f_kind f = CheckBox \<Longrightarrow> load_field cfg f = Inr (Checked (f_fallback f = ''true''))"
    using w g by (simp add: load_field_def bind_exn_def)
  show "f_kind f = SpinBox lo hi \<Longrightarrow>
       \<exists>n. lo \<le> n \<and> n \<le> hi \<and> str_int n = f_fallback f \<and> load_field cfg f = Inr (Value n)"
    using w g by (auto simp: load_field_def bind_exn_def split: sum.splits)
  assume "(f_widget f, m) \<in> set default_numbers"
  with f default_numbers_shown
  have "(case f_kind f of LineEdit \<Rightarrow> Inr (QLineEdit (f_fallback f))
        | CheckBox \<Rightarrow> bind_exn (strtobool (f_fallback f)) (\<lambda>b. Inr (Checked b))
        | SpinBox lo hi \<Rightarrow> bind_exn (py_int (f_fallback f)) (setValue lo hi)) = Inr (Value m)"
    by blast
  then show "load_field cfg f = Inr (Value m)"
    using g by (simp add: load_field_def bind_exn_def)
qed

lemma form_field_not_default: "f \<in> set form_fields \<Longrightarrow> f_section f \<noteq> DEFAULTSECT"
  using form_fields_named by (simp add: named_def)

text \<open>
  C4 (as stated, refuted). The section \<open>TCP\<close> is present and has no key \<open>port\<close>; the
  \<open>DEFAULT\<close> section has one. The port field of the dialog is then created with the value
  inherited from \<open>DEFAULT\<close>, 9999, not with its own default 2171.
\<close>

theorem absent_key_inherits_from_default_section:
  "sections inherited_port ''TCP'' = Some Map.empty
   \<and> stored inherited_port ''TCP'' ''port'' = None
   \<and> \<lparr>f_widget = ''tcp_port_edit'', f_section = ''TCP'', f_option = ''port'',
        f_fallback = ''2171'', f_kind = SpinBox 1 65535\<rparr> \<in> set form_fields
   \<and> load_field inherited_port
        \<lparr>f_widget = ''tcp_port_edit'', f_section = ''TCP'', f_option = ''port'',
         f_fallback = ''2171'', f_kind = SpinBox 1 65535\<rparr> = Inr (Value 9999)"
  by (simp add: inherited_port_def stored_def form_fields_def load_field_def config_get_def
      unify_values_def before_get_plain eval_defs)

text \<open>
  C4 (amended). For every form field whose key is absent from its section and, when the
  section is present, is not inherited from the \<open>DEFAULT\<close> section either, the widget is
  created from the field's own default without an exception: a line edit shows the
  default text, a check box is checked exactly when the default is \<open>true\<close>, a spin box
  holds the number that the default is the decimal form of, which lies in the spin box's
  range. The named defaults are among them: TCP port 2171, UDP port 2242, N1MM port 12060,
  GridTracker port 2237, GeoServer port 8080, SMTP port 587, grid length 6. A key that is
  absent from its section and present in \<open>DEFAULT\<close> is read from there. In the main
  window, \<open>config[s].get(opt, fb)\<close> gives \<open>fb\<close> under the same condition on a present
  section.
\<close>

theorem absent_key_shows_default:
  "(f \<in> set form_fields \<and> stored cfg (f_section f) (f_option f) = None
      \<and> (sections cfg (f_section f) \<noteq> None \<longrightarrow> defaults cfg (lower (f_option f)) = None) \<longrightarrow>
      (f_kind f = LineEdit \<longrightarrow> load_field cfg f = Inr (Text (f_fallback f)))
      \<and> (f_kind f = CheckBox \<longrightarrow> load_field cfg f = Inr (Checked (f_fallback f = ''true'')))
      \<and> (\<forall>lo hi. f_kind f = SpinBox lo hi \<longrightarrow>
            (\<exists>n. lo \<le> n \<and> n \<le> hi \<and> str_int n = f_fallback f
                 \<and> load_field cfg f = Inr (Value n)))
      \<and> ((f_widget f, n) \<in> set default_numbers \<longrightarrow> load_field cfg f = Inr (Value n)))
   \<and> (sections cfg s = Some d \<and> d (lower opt) = None \<and> defaults cfg (lower opt) = Some v
        \<and> CHR 0x25 \<notin> set v \<longrightarrow> config_get cfg s opt fb = Inr v)
   \<and> (sections cfg s = Some d \<and> d (lower opt) = None \<and> defaults cfg (lower opt) = None \<longrightarrow>
        section_get cfg s opt fb = Inr fb)"
proof (intro conjI impI allI)
  assume a: "f \<in> set form_fields \<and> stored cfg (f_section f) (f_option f) = None
      \<and> (sections cfg (f_section f) \<noteq> None \<longrightarrow> defaults cfg (lower (f_option f)) = None)"
  then have f: "f \<in> set form_fields" by simp
  have h: "\<not> has_option cfg (f_section f) (f_option f)"
    using a form_field_not_default [OF f] by (simp add: not_has_option)
  { assume "f_kind f = LineEdit"
    then show "load_field cfg f = Inr (Text (f_fallback f))" by (rule field_default(1) [OF f h]) }
  { assume "f_kind f = CheckBox"
    then show "load_field cfg f = Inr (Checked (f_fallback f = ''true''))"
      by (rule field_default(2) [OF f h]) }
  { fix lo hi assume "f_kind f = SpinBox lo hi"
    then show "\<exists>n. lo \<le> n \<and> n \<le> hi \<and> str_int n = f_fallback f
                 \<and> load_field cfg f = Inr (Value n)"
      by (rule field_default(3) [OF f h]) }
  { assume "(f_widget f, n) \<in> set default_numbers"
    then show "load_field cfg f = Inr (Value n)" by (rule field_default(4) [OF f h]) }
next
  assume "sections cfg s = Some d \<and> d (lower opt) = None \<and> defaults cfg (lower opt) = Some v
        \<and> CHR 0x25 \<notin> set v"
  then show "config_get cfg s opt fb = Inr v" by (simp add: config_get_inherited)
next
  assume a: "sections cfg s = Some d \<and> d (lower opt) = None \<and> defaults cfg (lower opt) = None"
  then have "\<not> has_option cfg s opt"
    by (simp add: has_option_def unify_values_def map_add_def)
  with a show "section_get cfg s opt fb = Inr fb" by (simp add: section_get_fallback)
qed

theorem absent_key_shows_default_witness:
  "load_field all_sections \<lparr>f_widget = ''tcp_port_edit'', f_section = ''TCP'', f_option = ''port'',
       f_fallback = ''2171'', f_kind = SpinBox 1 65535\<rparr> = Inr (Value 2171)
   \<and> load_field all_sections \<lparr>f_widget = ''tcp_host_edit'', f_section = ''TCP'', f_option = ''host'',
       f_fallback = ''127.0.0.1'', f_kind = LineEdit\<rparr> = Inr (Text ''127.0.0.1'')
   \<and> load_field all_sections \<lparr>f_widget = ''map_cq'', f_section = ''GRIDS'', f_option = ''map_cq'',
       f_fallback = ''true'', f_kind = CheckBox\<rparr> = Inr (Checked True)
   \<and> config_get inherited_port ''TCP'' ''port'' ''2171'' = Inr ''9999''
   \<and> section_get all_sections ''N1MM'' ''port'' ''12060'' = Inr ''12060''"
proof -
  have m: "\<lparr>f_widget = ''tcp_port_edit'', f_section = ''TCP'', f_option = ''port'',
       f_fallback = ''2171'', f_kind = SpinBox 1 65535\<rparr> \<in> set form_fields"
    "\<lparr>f_widget = ''tcp_host_edit'', f_section = ''TCP'', f_option = ''host'',
       f_fallback = ''127.0.0.1'', f_kind = LineEdit\<rparr> \<in> set form_fields"
    "\<lparr>f_widget = ''map_cq'', f_section = ''GRIDS'', f_option = ''map_cq'',
       f_fallback = ''true'', f_kind = CheckBox\<rparr> \<in> set form_fields"
    by (simp_all add: form_fields_def)
  have h: "stored all_sections ''TCP'' ''port'' = None" "stored all_sections ''TCP'' ''host'' = None"
    "stored all_sections ''GRIDS'' ''map_cq'' = None" "defaults all_sections = Map.empty"
    "sections all_sections ''N1MM'' = Some Map.empty"
    "sections inherited_port ''TCP'' = Some Map.empty"
    "defaults inherited_port (lower ''port'') = Some ''9999''"
    "CHR 0x25 \<notin> set ''9999''"
    by (simp_all add: stored_def all_sections_def inherited_port_def lower_def lower_char_def
        code_def)
  have d: "(''tcp_port_edit'', 2171) \<in> set default_numbers"
    by (simp add: default_numbers_def)
  show ?thesis
    using absent_key_shows_default [of "\<lparr>f_widget = ''tcp_port_edit'', f_section = ''TCP'',
          f_option = ''port'', f_fallback = ''2171'', f_kind = SpinBox 1 65535\<rparr>"
          all_sections 2171 "''N1MM''" Map.empty "''port''" "''12060''" "''12060''"]
      absent_key_shows_default [of "\<lparr>f_widget = ''tcp_host_edit'', f_section = ''TCP'',
          f_option = ''host'', f_fallback = ''127.0.0.1'', f_kind = LineEdit\<rparr>"
          all_sections 0 "''N1MM''" Map.empty "''port''" "''12060''" "''12060''"]
      absent_key_shows_default [of "\<lparr>f_widget = ''tcp_host_edit'', f_section = ''TCP'',
          f_option = ''host'', f_fallback = ''127.0.0.1'', f_kind = LineEdit\<rparr>"
          inherited_port 0 "''TCP''" Map.empty "''port''" "''9999''" "''2171''"]
      absent_key_shows_default [of "\<lparr>f_widget = ''map_cq'', f_section = ''GRIDS'',
          f_option = ''map_cq'', f_fallback = ''true'', f_kind = CheckBox\<rparr>"
          all_sections 0 "''N1MM''" Map.empty "''port''" "''12060''" "''12060''"]
      m h d
    by simp
qed


subsection \<open>When saving succeeds\<close>


lemma remove_escaped_subset: "set (remove_escaped s) \<subseteq> set s"
  by (induction s rule: remove_escaped.induct) auto

lemma match_KEYCRE_subset: "match_KEYCRE s = Some (k, t) \<Longrightarrow> set t \<subseteq> set s"
proof -
  assume m: "match_KEYCRE s = Some (k, t)"
  then obtain a b r where s: "s = a # b # r"
    by (cases s rule: list.exhaust; cases "tl s"; auto simp: match_KEYCRE_def)
  from m s have t: "t = drop 2 (dropWhile (\<lambda>x. x \<noteq> CHR 0x29) r)"
    by (auto simp: match_KEYCRE_def Let_def split: if_splits)
  have "set t \<subseteq> set (dropWhile (\<lambda>x. x \<noteq> CHR 0x29) r)"
    unfolding t by (rule set_drop_subset)
  also have "\<dots> \<subseteq> set r" by (auto dest: set_dropWhileD)
  finally show ?thesis using s by auto
qed

lemma remove_refs_subset: "set (remove_refs s) \<subseteq> set s"
proof (induction s rule: remove_refs.induct)
  case (1 s)
  show ?case
  proof (cases s)
    case Nil
    then show ?thesis by (subst remove_refs.simps) simp
  next
    case (Cons c r)
    show ?thesis
    proof (cases "match_KEYCRE s")
      case None
      with "1.IH"(1) [OF Cons None] Cons show ?thesis
        by (subst remove_refs.simps) auto
    next
      case (Some kt)
      obtain k t where kt: "kt = (k, t)" by (cases kt)
      from "1.IH"(2) [OF Cons Some kt [symmetric]] match_KEYCRE_subset [of s k t] Some kt Cons
      show ?thesis
        by (subst remove_refs.simps) auto
    qed
  qed
qed

lemma before_set_plain: "CHR 0x25 \<notin> set v \<Longrightarrow> before_set v = Inr v"
  using remove_refs_subset [of "remove_escaped v"] remove_escaped_subset [of v]
  by (auto simp: before_set_def Let_def)

lemma digit_not_percent: "n < 10 \<Longrightarrow> char_of (48 + n) \<noteq> CHR 0x25" for n :: nat
proof -
  assume "n < 10"
  then have "n \<in> {0, 1, 2, 3, 4, 5, 6, 7, 8, 9}" by auto
  then show ?thesis by (auto simp: char_of_def bit_Suc_0_iff)
qed

lemma str_nat_plain: "CHR 0x25 \<notin> set (str_nat n)"
proof (induction n rule: str_nat.induct)
  case (1 n)
  show ?case
  proof (cases "n < 10")
    case True
    then show ?thesis using digit_not_percent [of n] by (subst str_nat.simps) simp
  next
    case False
    have "n mod 10 < 10" by simp
    from "1.IH" [OF False] False digit_not_percent [OF this] show ?thesis
      by (subst str_nat.simps) simp
  qed
qed

lemma render_Checked: "render (Checked b) = (if b then ''true'' else ''false'')"
  by (simp add: str_bool_def lower_def lower_char_def code_def char_of_def bit_Suc_0_iff)

lemma render_plain: "(\<forall>t. v \<noteq> Text t) \<Longrightarrow> CHR 0x25 \<notin> set (render v)"
  by (cases v) (simp_all add: render_Checked str_int_def str_nat_plain del: render.simps(2))

lemma config_set_ok:
  "sections cfg s = Some d \<Longrightarrow> s \<noteq> [] \<Longrightarrow> s \<noteq> DEFAULTSECT \<Longrightarrow> CHR 0x25 \<notin> set v \<Longrightarrow>
   config_set cfg s opt v = Inr (cfg\<lparr>sections := (sections cfg)(s \<mapsto> d(lower opt \<mapsto> v))\<rparr>)"
  by (simp add: config_set_def bind_exn_def before_set_plain)

lemma set_fields_succeeds:
  "named fs \<Longrightarrow> \<forall>f \<in> set fs. sections cfg (f_section f) \<noteq> None \<Longrightarrow>
   \<forall>f \<in> set fs. CHR 0x25 \<notin> set (render (w (f_widget f))) \<Longrightarrow>
   fst (set_fields cfg w fs) = None"
proof (induction fs arbitrary: cfg)
  case Nil
  then show ?case by simp
next
  case (Cons f fs)
  have n: "f_section f \<noteq> []" "f_section f \<noteq> DEFAULTSECT" "named fs"
    using Cons.prems(1) by (simp_all add: named_def)
  obtain d where d: "sections cfg (f_section f) = Some d" using Cons.prems(2) by auto
  have p: "CHR 0x25 \<notin> set (render (w (f_widget f)))" using Cons.prems(3) by simp
  note c = config_set_ok [OF d n(1,2) p, of "f_option f"]
  have "\<forall>g \<in> set fs. sections (cfg\<lparr>sections := (sections cfg)(f_section f \<mapsto>
            d(lower (f_option f) \<mapsto> render (w (f_widget f))))\<rparr>) (f_section g) \<noteq> None"
    using Cons.prems(2) by simp
  from Cons.IH [OF n(3) this] Cons.prems(3) show ?case
    by (simp add: c)
qed


lemma create_widgets_total:
  "\<forall>f \<in> set fs. \<exists>v. load_field cfg f = Inr v \<Longrightarrow> \<exists>w'. create_widgets cfg fs w = Inr w'"
  by (induction fs arbitrary: w) (auto simp: bind_exn_def)

lemma config_get_stored_plain:
  "stored cfg s opt = Some u \<Longrightarrow> CHR 0x25 \<notin> set u \<Longrightarrow> config_get cfg s opt fb = Inr u"
  by (auto simp: stored_def config_get_def unify_values_def before_get_plain map_add_def
      split: option.splits)


lemma SettingsDialog_init_cases:
  assumes "SettingsDialog_init io env = Inr dlg"
  obtains cfg where "read_config io env = Inr cfg" "config dlg = cfg"
    "create_widgets cfg form_fields (\<lambda>n. Text []) = Inr (widgets dlg)" "result dlg = Open"
  using assms
  by (auto simp: SettingsDialog_init_def bind_exn_def split: sum.splits)

lemma SettingsDialog_init_total:
  assumes "read_config io env = Inr cfg"
    and "\<forall>f \<in> set form_fields. \<exists>v. load_field cfg f = Inr v"
  shows "\<exists>w. create_widgets cfg form_fields (\<lambda>n. Text []) = Inr w
           \<and> SettingsDialog_init io env = Inr \<lparr>config = cfg, widgets = w, result = Open\<rparr>"
proof -
  from create_widgets_total [OF assms(2)] obtain w
    where w: "create_widgets cfg form_fields (\<lambda>n. Text []) = Inr w" by blast
  then show ?thesis
    by (simp add: SettingsDialog_init_def assms(1) bind_exn_def)
qed

lemma loaded_fields_set:
  assumes w: "create_widgets cfg form_fields (\<lambda>n. Text []) = Inr w"
    and l: "\<forall>f \<in> set form_fields. \<exists>v. load_field cfg f = Inr v \<and> CHR 0x25 \<notin> set (render v)"
    and p: "\<forall>f \<in> set form_fields. sections cfg (f_section f) \<noteq> None"
  shows "fst (set_fields cfg w form_fields) = None"
proof -
  have "CHR 0x25 \<notin> set (render (w (f_widget f)))" if "f \<in> set form_fields" for f
    using create_widgets_field [OF w distinct_widgets that] l that by auto
  then show ?thesis
    using set_fields_succeeds [OF form_fields_named p] by blast
qed


lemma save_config_file:
  "config_file (snd (save_config io dlg env))
     = (if file_opened dlg env
        then Some (snd (write_text io (snd (set_fields (config dlg) (widgets dlg) form_fields))))
        else config_file env)"
  "writes (snd (save_config io dlg env))
     = (if file_opened dlg env
        then writes env @ [snd (write_text io (snd (set_fields (config dlg) (widgets dlg) form_fields)))]
        else writes env)"
  "config (fst (save_config io dlg env)) = snd (set_fields (config dlg) (widgets dlg) form_fields)"
  by (simp_all add: save_config_def Let_def split: option.splits)

lemma save_config_accepted:
  assumes "result dlg = Open"
  shows "result (fst (save_config io dlg env)) = Accepted \<longleftrightarrow> save_error io dlg env = None"
  using assms by (auto simp: save_config_def Let_def split: option.splits)

lemma save_error_None:
  "save_error io dlg env = None \<longleftrightarrow>
     file_opened dlg env
     \<and> fst (write_text io (snd (set_fields (config dlg) (widgets dlg) form_fields))) = None"
  by (auto simp: save_error_def file_opened_def split: option.splits)


subsection \<open>Exceptions\<close>






lemmas load_eval = load_field_def config_get_def unify_values_def before_get_plain
  DEFAULTSECT_def eval_defs


lemma all_sections_loads:
  "\<forall>f \<in> set form_fields. \<exists>v. load_field all_sections f = Inr v \<and> CHR 0x25 \<notin> set (render v)"
  by (simp add: form_fields_def all_sections_def load_eval render_Checked del: render.simps(2))

lemma all_sections_present:
  "\<forall>f \<in> set form_fields. sections all_sections (f_section f) \<noteq> None"
  by (simp add: form_fields_def all_sections_def)

lemma read_config_desktop_with:
  "read_config plain_io (desktop_with c) = Inr c" "read_config full_disk_io (desktop_with c) = Inr c"
  by (simp_all add: read_config_def desktop_with_def plain_io_def full_disk_io_def)





subsection \<open>Saving rewrites the file\<close>




lemma open_and_save_cases:
  assumes "open_and_save io env = Inr (dlg', env')" "read_config io env = Inr cfg"
  obtains w where "create_widgets cfg form_fields (\<lambda>n. Text []) = Inr w"
    "save_config io \<lparr>config = cfg, widgets = w, result = Open\<rparr> env = (dlg', env')"
proof -
  from assms(1) obtain dlg where i: "SettingsDialog_init io env = Inr dlg"
    and s: "save_config io dlg env = (dlg', env')"
    by (auto simp: open_and_save_def bind_exn_def split: sum.splits)
  from i assms(2) have c: "create_widgets cfg form_fields (\<lambda>n. Text []) = Inr (widgets dlg)"
    and d: "dlg = \<lparr>config = cfg, widgets = widgets dlg, result = Open\<rparr>"
    by (auto simp: SettingsDialog_init_def bind_exn_def split: sum.splits)
  from s d have "save_config io \<lparr>config = cfg, widgets = widgets dlg, result = Open\<rparr> env = (dlg', env')"
    by simp
  with c show ?thesis using that by blast
qed

lemma open_and_save_accepted:
  assumes "open_and_save io env = Inr (dlg', env')" "read_config io env = Inr cfg"
    "result dlg' = Accepted"
  obtains w where "create_widgets cfg form_fields (\<lambda>n. Text []) = Inr w"
    "set_fields cfg w form_fields = (None, config dlg')"
    "open_error env = None" "fst (write_text io (config dlg')) = None"
    "config_file env' = Some (snd (write_text io (config dlg')))"
    "writes env' = writes env @ [snd (write_text io (config dlg'))]"
proof -
  from assms(1,2) obtain w where c: "create_widgets cfg form_fields (\<lambda>n. Text []) = Inr w"
    and s: "save_config io \<lparr>config = cfg, widgets = w, result = Open\<rparr> env = (dlg', env')"
    by (rule open_and_save_cases)
  let ?d = "\<lparr>config = cfg, widgets = w, result = Open\<rparr>"
  have r: "result (fst (save_config io ?d env)) = Accepted" using s assms(3) by simp
  have "save_error io ?d env = None"
    using save_config_accepted [of ?d io env] r by simp
  then have o: "file_opened ?d env"
    and x: "fst (write_text io (snd (set_fields cfg w form_fields))) = None"
    by (simp_all add: save_error_None)
  have g: "config dlg' = snd (set_fields cfg w form_fields)"
    using save_config_file(3) [of io ?d env] s by simp
  have f: "fst (set_fields cfg w form_fields) = None" and oe: "open_error env = None"
    using o by (simp_all add: file_opened_def)
  have sf: "set_fields cfg w form_fields = (None, config dlg')"
    using f g by (simp add: prod_eq_iff)
  have cf: "config_file env' = Some (snd (write_text io (config dlg')))"
    using save_config_file(1) [of io ?d env] s o g by simp
  have wr: "writes env' = writes env @ [snd (write_text io (config dlg'))]"
    using save_config_file(2) [of io ?d env] s o g by simp
  from c sf oe x cf wr show ?thesis using that g by simp
qed


lemma open_and_save_total:
  assumes "read_config io env = Inr cfg"
    and "\<forall>f \<in> set form_fields. \<exists>v. load_field cfg f = Inr v"
  shows "open_and_save io env
     = Inr (fst (projr (open_and_save io env)), snd (projr (open_and_save io env)))"
proof -
  from SettingsDialog_init_total [OF assms] obtain w
    where "SettingsDialog_init io env = Inr \<lparr>config = cfg, widgets = w, result = Open\<rparr>"
    by blast
  then show ?thesis by (simp add: open_and_save_def bind_exn_def)
qed

lemma open_and_save_succeeds:
  assumes r: "read_config io env = Inr cfg"
    and l: "\<forall>f \<in> set form_fields. \<exists>v. load_field cfg f = Inr v \<and> CHR 0x25 \<notin> set (render v)"
    and p: "\<forall>f \<in> set form_fields. sections cfg (f_section f) \<noteq> None"
    and o: "open_error env = None"
    and x: "\<forall>c. fst (write_text io c) = None"
  shows "result (fst (projr (open_and_save io env))) = Accepted"
proof -
  from l have l': "\<forall>f \<in> set form_fields. \<exists>v. load_field cfg f = Inr v" by blast
  from SettingsDialog_init_total [OF r l'] obtain w
    where w: "create_widgets cfg form_fields (\<lambda>n. Text []) = Inr w"
      and i: "SettingsDialog_init io env = Inr \<lparr>config = cfg, widgets = w, result = Open\<rparr>"
    by blast
  let ?d = "\<lparr>config = cfg, widgets = w, result = Open\<rparr>"
  have "fst (set_fields cfg w form_fields) = None"
    by (rule loaded_fields_set [OF w l p])
  then have "save_error io ?d env = None"
    using o x by (simp add: save_error_None file_opened_def)
  then have "result (fst (save_config io ?d env)) = Accepted"
    using save_config_accepted [of ?d io env] by simp
  then show ?thesis
    by (simp add: open_and_save_def i bind_exn_def)
qed



lemma plain_io_writes: "\<forall>c. fst (write_text plain_io c) = None" "snd (write_text plain_io c) = c"
  by (simp_all add: plain_io_def)

lemma all_sections_saved:
  "result (fst (projr (open_and_save plain_io (desktop_with all_sections)))) = Accepted"
proof (rule open_and_save_succeeds [OF read_config_desktop_with(1) all_sections_loads
      all_sections_present _ plain_io_writes(1)])
  show "open_error (desktop_with all_sections) = None"
    by (simp add: desktop_with_def)
qed

lemma all_sections_saved_eq:
  "open_and_save plain_io (desktop_with all_sections)
   = Inr (fst (projr (open_and_save plain_io (desktop_with all_sections))),
          snd (projr (open_and_save plain_io (desktop_with all_sections))))"
proof (rule open_and_save_total [OF read_config_desktop_with(1)])
  show "\<forall>f \<in> set form_fields. \<exists>v. load_field all_sections f = Inr v"
    using all_sections_loads by blast
qed




subsection \<open>Saving what was loaded\<close>


lemma saved_value:
  assumes a: "open_and_save io env = Inr (dlg', env')" "read_config io env = Inr cfg"
    "result dlg' = Accepted"
    and f: "f \<in> set form_fields"
  shows "\<exists>v. load_field cfg f = Inr v
           \<and> stored (config dlg') (f_section f) (f_option f) = Some (render v)"
proof -
  from a obtain w where cw: "create_widgets cfg form_fields (\<lambda>n. Text []) = Inr w"
    and sf: "set_fields cfg w form_fields = (None, config dlg')"
    and "open_error env = None" "fst (write_text io (config dlg')) = None"
      "config_file env' = Some (snd (write_text io (config dlg')))"
      "writes env' = writes env @ [snd (write_text io (config dlg'))]"
    by (rule open_and_save_accepted)
  from create_widgets_field [OF cw distinct_widgets f]
    set_fields_stored [OF form_fields_named distinct_keys sf f]
  show ?thesis by blast
qed

lemma load_field_stored:
  assumes u: "stored cfg (f_section f) (f_option f) = Some u" "CHR 0x25 \<notin> set u"
    and l: "load_field cfg f = Inr v"
  shows "f_kind f = LineEdit \<Longrightarrow> v = Text u"
    "f_kind f = CheckBox \<Longrightarrow> \<exists>b. strtobool u = Inr b \<and> v = Checked b"
    "f_kind f = SpinBox lo hi \<Longrightarrow> \<exists>n. py_int u = Inr n \<and> v = Value (max lo (min hi n))"
proof -
  have g: "config_get cfg (f_section f) (f_option f) (f_fallback f) = Inr u"
    by (rule config_get_stored_plain [OF u])
  show "f_kind f = LineEdit \<Longrightarrow> v = Text u"
    using l g by (simp add: load_field_def bind_exn_def QLineEdit_def)
  show "f_kind f = CheckBox \<Longrightarrow> \<exists>b. strtobool u = Inr b \<and> v = Checked b"
    using l g by (cases "strtobool u") (simp_all add: load_field_def bind_exn_def)
  show "f_kind f = SpinBox lo hi \<Longrightarrow> \<exists>n. py_int u = Inr n \<and> v = Value (max lo (min hi n))"
    using l g
    by (cases "py_int u") (auto simp: load_field_def bind_exn_def setValue_def split: if_splits)
qed

lemma save_after_load:
  assumes a: "open_and_save io env = Inr (dlg', env')" "read_config io env = Inr cfg"
    "result dlg' = Accepted"
    and f: "f \<in> set form_fields"
    and u: "stored cfg (f_section f) (f_option f) = Some u" "CHR 0x25 \<notin> set u"
  shows "f_kind f = LineEdit \<Longrightarrow> stored (config dlg') (f_section f) (f_option f) = Some u"
    "f_kind f = CheckBox \<Longrightarrow>
       \<exists>b. strtobool u = Inr b
          \<and> stored (config dlg') (f_section f) (f_option f)
              = Some (if b then ''true'' else ''false'')"
    "f_kind f = SpinBox lo hi \<Longrightarrow>
       \<exists>n. py_int u = Inr n
          \<and> stored (config dlg') (f_section f) (f_option f) = Some (str_int (max lo (min hi n)))"
proof -
  from saved_value [OF a f] obtain v where l: "load_field cfg f = Inr v"
    and s: "stored (config dlg') (f_section f) (f_option f) = Some (render v)" by blast
  { assume "f_kind f = LineEdit"
    from load_field_stored(1) [OF u l this] s
    show "stored (config dlg') (f_section f) (f_option f) = Some u" by simp }
  { assume "f_kind f = CheckBox"
    from load_field_stored(2) [OF u l this] obtain b where "strtobool u = Inr b" "v = Checked b"
      by blast
    with s show "\<exists>b. strtobool u = Inr b
          \<and> stored (config dlg') (f_section f) (f_option f)
              = Some (if b then ''true'' else ''false'')"
      by (simp add: render_Checked del: render.simps(2)) }
  { assume "f_kind f = SpinBox lo hi"
    from load_field_stored(3) [OF u l this] obtain n
      where "py_int u = Inr n" "v = Value (max lo (min hi n))" by blast
    with s show "\<exists>n. py_int u = Inr n
          \<and> stored (config dlg') (f_section f) (f_option f) = Some (str_int (max lo (min hi n)))"
      by simp }
qed

lemma strtobool_yes: "strtobool ''yes'' = Inr True"
  by (simp add: strtobool_def lower_def lower_char_def code_def)

lemma py_int_007: "py_int ''007'' = Inr 7"
  by (simp add: eval_defs)

text \<open>
  C2 (as stated, refuted). The file has \<open>enabled = yes\<close> in the section \<open>TCP\<close>, a key bound
  to a check box. The dialog opens, Save is pressed and accepted, and the value stored
  under the key is \<open>true\<close>, not \<open>yes\<close>.
\<close>

theorem save_after_load_changes_yes:
  "stored all_sections ''TCP'' ''enabled'' = Some ''yes''
   \<and> bound ''TCP'' ''enabled''
   \<and> config_file (desktop_with all_sections) = Some all_sections
   \<and> \<not> isl (open_and_save plain_io (desktop_with all_sections))
   \<and> result (fst (projr (open_and_save plain_io (desktop_with all_sections)))) = Accepted
   \<and> stored (config (fst (projr (open_and_save plain_io (desktop_with all_sections)))))
       ''TCP'' ''enabled'' = Some ''true''"
proof -
  let ?f = "\<lparr>f_widget = ''tcp_enabled'', f_section = ''TCP'', f_option = ''enabled'',
       f_fallback = ''false'', f_kind = CheckBox\<rparr>"
  have m: "?f \<in> set form_fields"
    by (simp add: form_fields_def)
  have s: "stored all_sections (f_section ?f) (f_option ?f) = Some ''yes''"
    by (simp add: stored_def all_sections_def lower_def lower_char_def code_def)
  have p: "CHR 0x25 \<notin> set ''yes''" by simp
  have k: "f_kind ?f = CheckBox" by simp
  from save_after_load(2) [OF all_sections_saved_eq read_config_desktop_with(1)
      all_sections_saved m s p k]
  have t: "stored (config (fst (projr (open_and_save plain_io (desktop_with all_sections)))))
       ''TCP'' ''enabled'' = Some ''true''"
    by (auto simp: strtobool_yes)
  have b: "bound ''TCP'' ''enabled''"
    unfolding bound_def using m by (rule bexI [rotated]) simp
  have i: "\<not> isl (open_and_save plain_io (desktop_with all_sections))"
    by (subst all_sections_saved_eq) simp
  have c: "config_file (desktop_with all_sections) = Some all_sections"
    by (simp add: desktop_with_def)
  show ?thesis using s t b i c all_sections_saved by simp
qed

text \<open>
  C2 (amended). When the dialog is opened on a configuration and Save is pressed at once
  and accepted, every key bound to a form field is stored with the text of its widget as
  it was created from the configuration. For a value \<open>u\<close> stored under the key, without a
  percent sign: a line edit stores \<open>u\<close> again, verbatim; a check box stores \<open>true\<close> or
  \<open>false\<close>, the truth value that \<open>strtobool\<close> gives \<open>u\<close>; a spin box stores the decimal form
  of the number that \<open>int\<close> gives \<open>u\<close>, bounded to the spin box's range. The file then holds
  what \<open>config.write\<close> makes of the object with these values.
\<close>

theorem save_after_load_normalises:
  "open_and_save io env = Inr (dlg', env') \<and> read_config io env = Inr cfg
     \<and> result dlg' = Accepted \<and> f \<in> set form_fields \<longrightarrow>
     (\<exists>v. load_field cfg f = Inr v
        \<and> stored (config dlg') (f_section f) (f_option f) = Some (render v))
     \<and> (\<forall>u. stored cfg (f_section f) (f_option f) = Some u \<and> CHR 0x25 \<notin> set u \<longrightarrow>
          (f_kind f = LineEdit \<longrightarrow> stored (config dlg') (f_section f) (f_option f) = Some u)
          \<and> (f_kind f = CheckBox \<longrightarrow>
               (\<exists>b. strtobool u = Inr b
                  \<and> stored (config dlg') (f_section f) (f_option f)
                      = Some (if b then ''true'' else ''false'')))
          \<and> (\<forall>lo hi. f_kind f = SpinBox lo hi \<longrightarrow>
               (\<exists>n. py_int u = Inr n
                  \<and> stored (config dlg') (f_section f) (f_option f)
                      = Some (str_int (max lo (min hi n))))))
     \<and> config_file env' = Some (snd (write_text io (config dlg')))"
proof (intro impI)
  assume a: "open_and_save io env = Inr (dlg', env') \<and> read_config io env = Inr cfg
     \<and> result dlg' = Accepted \<and> f \<in> set form_fields"
  then have a1: "open_and_save io env = Inr (dlg', env')" and a2: "read_config io env = Inr cfg"
    and a3: "result dlg' = Accepted" and a4: "f \<in> set form_fields"
    by simp_all
  have c1: "\<exists>v. load_field cfg f = Inr v
        \<and> stored (config dlg') (f_section f) (f_option f) = Some (render v)"
    by (rule saved_value [OF a1 a2 a3 a4])
  have c2: "\<forall>u. stored cfg (f_section f) (f_option f) = Some u \<and> CHR 0x25 \<notin> set u \<longrightarrow>
          (f_kind f = LineEdit \<longrightarrow> stored (config dlg') (f_section f) (f_option f) = Some u)
          \<and> (f_kind f = CheckBox \<longrightarrow>
               (\<exists>b. strtobool u = Inr b
                  \<and> stored (config dlg') (f_section f) (f_option f)
                      = Some (if b then ''true'' else ''false'')))
          \<and> (\<forall>lo hi. f_kind f = SpinBox lo hi \<longrightarrow>
               (\<exists>n. py_int u = Inr n
                  \<and> stored (config dlg') (f_section f) (f_option f)
                      = Some (str_int (max lo (min hi n)))))"
  proof (intro allI impI conjI)
    fix u
    assume "stored cfg (f_section f) (f_option f) = Some u \<and> CHR 0x25 \<notin> set u"
    then have u: "stored cfg (f_section f) (f_option f) = Some u" "CHR 0x25 \<notin> set u"
      by simp_all
    { assume "f_kind f = LineEdit"
      then show "stored (config dlg') (f_section f) (f_option f) = Some u"
        by (rule save_after_load(1) [OF a1 a2 a3 a4 u]) }
    { assume "f_kind f = CheckBox"
      then show "\<exists>b. strtobool u = Inr b
                  \<and> stored (config dlg') (f_section f) (f_option f)
                      = Some (if b then ''true'' else ''false'')"
        by (rule save_after_load(2) [OF a1 a2 a3 a4 u]) }
    { fix lo hi assume "f_kind f = SpinBox lo hi"
      then show "\<exists>n. py_int u = Inr n
                  \<and> stored (config dlg') (f_section f) (f_option f)
                      = Some (str_int (max lo (min hi n)))"
        by (rule save_after_load(3) [OF a1 a2 a3 a4 u]) }
  qed
  from a1 a2 a3 obtain w where "create_widgets cfg form_fields (\<lambda>n. Text []) = Inr w"
    "set_fields cfg w form_fields = (None, config dlg')"
    "open_error env = None" "fst (write_text io (config dlg')) = None"
    and c3: "config_file env' = Some (snd (write_text io (config dlg')))"
    and "writes env' = writes env @ [snd (write_text io (config dlg'))]"
    by (rule open_and_save_accepted)
  from c1 c2 c3 show "(\<exists>v. load_field cfg f = Inr v
        \<and> stored (config dlg') (f_section f) (f_option f) = Some (render v))
     \<and> (\<forall>u. stored cfg (f_section f) (f_option f) = Some u \<and> CHR 0x25 \<notin> set u \<longrightarrow>
          (f_kind f = LineEdit \<longrightarrow> stored (config dlg') (f_section f) (f_option f) = Some u)
          \<and> (f_kind f = CheckBox \<longrightarrow>
               (\<exists>b. strtobool u = Inr b
                  \<and> stored (config dlg') (f_section f) (f_option f)
                      = Some (if b then ''true'' else ''false'')))
          \<and> (\<forall>lo hi. f_kind f = SpinBox lo hi \<longrightarrow>
               (\<exists>n. py_int u = Inr n
                  \<and> stored (config dlg') (f_section f) (f_option f)
                      = Some (str_int (max lo (min hi n))))))
     \<and> config_file env' = Some (snd (write_text io (config dlg')))"
    by (intro conjI)
qed

theorem save_after_load_normalises_witness:
  "stored (config (fst (projr (open_and_save plain_io (desktop_with all_sections)))))
       ''STATION'' ''operator'' = Some ''N0CALL''
   \<and> stored (config (fst (projr (open_and_save plain_io (desktop_with all_sections)))))
       ''TCP'' ''poll_status_interval'' = Some ''7''"
proof -
  let ?f = "\<lparr>f_widget = ''operator_edit'', f_section = ''STATION'', f_option = ''operator'',
       f_fallback = [], f_kind = LineEdit\<rparr>"
  let ?g = "\<lparr>f_widget = ''tcp_poll_edit'', f_section = ''TCP'',
       f_option = ''poll_status_interval'', f_fallback = ''5'', f_kind = SpinBox 1 60\<rparr>"
  have m: "?f \<in> set form_fields" "?g \<in> set form_fields"
    by (simp_all add: form_fields_def)
  have s: "stored all_sections ''STATION'' ''operator'' = Some ''N0CALL''"
    "stored all_sections ''TCP'' ''poll_status_interval'' = Some ''007''"
    by (simp_all add: stored_def all_sections_def lower_def lower_char_def code_def)
  have n: "str_int 7 = ''7''"
    by (simp add: str_int_def str_nat.simps char_of_def bit_Suc_0_iff)
  show ?thesis
    using save_after_load_normalises [of plain_io "desktop_with all_sections"
        "fst (projr (open_and_save plain_io (desktop_with all_sections)))"
        "snd (projr (open_and_save plain_io (desktop_with all_sections)))" all_sections ?f]
      save_after_load_normalises [of plain_io "desktop_with all_sections"
        "fst (projr (open_and_save plain_io (desktop_with all_sections)))"
        "snd (projr (open_and_save plain_io (desktop_with all_sections)))" all_sections ?g]
      all_sections_saved_eq all_sections_saved m s n py_int_007
      read_config_desktop_with(1) [of all_sections]
    by simp
qed

end
